theory Spec2Isabelle
  imports Main "HOL-Library.AList"
begin

section \<open>Exceptions, collaborator calls and the execution monad\<close>

text \<open>
  The deployer is a sequence of synchronous boto3 calls. The model threads two things
  through every function: the state of the cloud provider (an arbitrary type \<open>'w\<close>, owned
  by the collaborator) and the log of the API requests issued so far. A Python exception
  is the \<open>Inl\<close> branch of the result.

  \<open>ValueError\<close> carries the source's f-string template and the values interpolated into
  it, so that no rendering of Python's \<open>repr\<close> has to be modelled.
\<close>

datatype pyval = Str string | StrList "string list"

datatype exn =
    ClientError string          \<comment> \<open>botocore ClientError; the argument is \<open>e.response['Error']['Code']\<close>\<close>
  | WaiterError string          \<comment> \<open>botocore WaiterError, raised by \<open>waiter.wait\<close>\<close>
  | ValueError string "pyval list"
  | KeyError string

record vpc_config =
  SubnetIds :: "string list"
  SecurityGroupIds :: "string list option"    \<comment> \<open>\<open>None\<close>: the key is absent from the dict\<close>

record statement =
  Effect :: string
  Principal_Service :: "string option"
  Action :: "string list"
  Resource :: "string list"

record policy_document =
  Version :: string
  Statement :: "statement list"

text \<open>The keyword arguments of \<open>update_function_configuration\<close>; \<open>None\<close> is an absent keyword.\<close>

record update_params =
  up_Role :: "string option"
  up_MemorySize :: "int option"
  up_Timeout :: "int option"
  up_VpcConfig :: "vpc_config option"
  up_Environment :: "(string \<times> string) list option"   \<comment> \<open>\<open>Environment={'Variables': ...}\<close>\<close>

datatype request =
    GetRole string
  | CreateRole string policy_document string
  | DeleteRole string
  | GetPolicy string
  | CreatePolicy string policy_document string
  | DeletePolicy string
  | AttachRolePolicy string string
  | DetachRolePolicy string string
  | ListEntitiesForPolicy string "string option"
  | ListAttachedRolePolicies string "string option"
  | ListRolePolicies string "string option"
  | DeleteRolePolicy string string
  | GetCallerIdentity
  | GetFunction string
  | CreateFunction string string string string int int "vpc_config option"
  | UpdateFunctionCode string string
  | UpdateFunctionConfiguration string update_params
  | GetFunctionConfiguration string
  | WaiterWait string string
  | HeadBucket string
  | DescribeVpcs "string list"
  | DescribeSubnets "string list"
  | DescribeSecurityGroups "string list"

text \<open>Responses, reduced to the fields the source reads.\<close>

record page =
  items :: "string list"          \<comment> \<open>\<open>PolicyRoles\<close> / \<open>AttachedPolicies\<close> / \<open>PolicyNames\<close>, \<open>[]\<close> when absent\<close>
  IsTruncated :: bool             \<comment> \<open>\<open>response.get('IsTruncated', False)\<close>\<close>
  Marker :: "string option"       \<comment> \<open>\<open>response['Marker']\<close>\<close>

record vpc_desc =
  vpc_State :: "string option"

record subnet_desc =
  subnet_VpcId :: "string option"
  subnet_State :: "string option"

record sg_desc =
  sg_VpcId :: "string option"

type_synonym 'w st = "'w \<times> request list"
type_synonym ('w, 'a) handler = "'w \<Rightarrow> (exn + 'a) \<times> 'w"
type_synonym ('w, 'a) prog = "'w st \<Rightarrow> (exn + 'a) \<times> 'w st"

text \<open>
  The boto3 clients. Each field is one client method: it reads and changes the provider's
  state and answers with a response or an exception. Nothing is assumed about them.
\<close>

record 'w provider =
  iam_get_role :: "string \<Rightarrow> ('w, string) handler"
  iam_create_role :: "string \<Rightarrow> policy_document \<Rightarrow> string \<Rightarrow> ('w, string) handler"
  iam_delete_role :: "string \<Rightarrow> ('w, unit) handler"
  iam_get_policy :: "string \<Rightarrow> ('w, string) handler"
  iam_create_policy :: "string \<Rightarrow> policy_document \<Rightarrow> string \<Rightarrow> ('w, string) handler"
  iam_delete_policy :: "string \<Rightarrow> ('w, unit) handler"
  iam_attach_role_policy :: "string \<Rightarrow> string \<Rightarrow> ('w, unit) handler"
  iam_detach_role_policy :: "string \<Rightarrow> string \<Rightarrow> ('w, unit) handler"
  iam_list_entities_for_policy :: "string \<Rightarrow> string option \<Rightarrow> ('w, page) handler"
  iam_list_attached_role_policies :: "string \<Rightarrow> string option \<Rightarrow> ('w, page) handler"
  iam_list_role_policies :: "string \<Rightarrow> string option \<Rightarrow> ('w, page) handler"
  iam_delete_role_policy :: "string \<Rightarrow> string \<Rightarrow> ('w, unit) handler"
  sts_get_caller_identity :: "('w, string) handler"
  lambda_get_function :: "string \<Rightarrow> ('w, unit) handler"
  lambda_create_function ::
    "string \<Rightarrow> string \<Rightarrow> string \<Rightarrow> string \<Rightarrow> int \<Rightarrow> int \<Rightarrow> vpc_config option \<Rightarrow> ('w, string) handler"
  lambda_update_function_code :: "string \<Rightarrow> string \<Rightarrow> ('w, string) handler"
  lambda_update_function_configuration :: "string \<Rightarrow> update_params \<Rightarrow> ('w, string) handler"
  lambda_get_function_configuration :: "string \<Rightarrow> ('w, (string \<times> string) list option) handler"
  lambda_waiter_wait :: "string \<Rightarrow> string \<Rightarrow> ('w, unit) handler"
  s3_head_bucket :: "string \<Rightarrow> ('w, unit) handler"
  ec2_describe_vpcs :: "string list \<Rightarrow> ('w, vpc_desc list option) handler"
  ec2_describe_subnets :: "string list \<Rightarrow> ('w, subnet_desc list option) handler"
  ec2_describe_security_groups :: "string list \<Rightarrow> ('w, sg_desc list option) handler"

definition ret :: "'a \<Rightarrow> ('w, 'a) prog" where
  "ret x = (\<lambda>s. (Inr x, s))"

definition raise :: "exn \<Rightarrow> ('w, 'a) prog" where
  "raise e = (\<lambda>s. (Inl e, s))"

definition seq :: "('w, 'a) prog \<Rightarrow> ('a \<Rightarrow> ('w, 'b) prog) \<Rightarrow> ('w, 'b) prog" where
  "seq m k = (\<lambda>s. case m s of (Inl e, s') \<Rightarrow> (Inl e, s') | (Inr x, s') \<Rightarrow> k x s')"

text \<open>\<open>try: m  except ClientError as e: h code\<close>; every other exception passes through.\<close>

definition except_ClientError :: "('w, 'a) prog \<Rightarrow> (string \<Rightarrow> ('w, 'a) prog) \<Rightarrow> ('w, 'a) prog" where
  "except_ClientError m h =
     (\<lambda>s. case m s of
             (Inl (ClientError c), s') \<Rightarrow> h c s'
           | r \<Rightarrow> r)"

text \<open>One API request: it is logged, and the provider answers.\<close>

definition call :: "request \<Rightarrow> ('w, 'a) handler \<Rightarrow> ('w, 'a) prog" where
  "call rq h = (\<lambda>(w, log). case h w of (r, w') \<Rightarrow> (r, (w', log @ [rq])))"

section \<open>S3 access manager (s3/access\_manager.py)\<close>

definition bucket_exists :: "'w provider \<Rightarrow> string \<Rightarrow> ('w, bool) prog" where
  "bucket_exists P bucket_name =
     except_ClientError
       (seq (call (HeadBucket bucket_name) (s3_head_bucket P bucket_name)) (\<lambda>_. ret True))
       (\<lambda>error_code.
          if error_code = ''404'' then ret False
          else if error_code = ''403'' then ret False
          else raise (ClientError error_code))"

definition update_lambda_environment :: "'w provider \<Rightarrow> string \<Rightarrow> string \<Rightarrow> ('w, unit) prog" where
  "update_lambda_environment P function_name s3_bucket =
     except_ClientError
       (seq (call (GetFunctionConfiguration function_name)
               (lambda_get_function_configuration P function_name)) (\<lambda>response.
        let current_env = (case response of None \<Rightarrow> [] | Some vars \<Rightarrow> vars);
            updated_env = AList.update ''S3_BUCKET'' s3_bucket current_env;
            params = \<lparr>up_Role = None, up_MemorySize = None, up_Timeout = None,
                       up_VpcConfig = None, up_Environment = Some updated_env\<rparr>
        in
        seq (call (UpdateFunctionConfiguration function_name params)
               (lambda_update_function_configuration P function_name params)) (\<lambda>_.
        call (WaiterWait ''function_updated'' function_name)
          (lambda_waiter_wait P ''function_updated'' function_name))))
       (\<lambda>code. raise (ClientError code))"

definition configure_s3_access :: "'w provider \<Rightarrow> string \<Rightarrow> string \<Rightarrow> ('w, bool) prog" where
  "configure_s3_access P function_name s3_bucket =
     seq (bucket_exists P s3_bucket) (\<lambda>ex.
     if \<not> ex then
       raise (ValueError ''S3 bucket {s3_bucket} does not exist or is not accessible'' [Str s3_bucket])
     else
       seq (update_lambda_environment P function_name s3_bucket) (\<lambda>_. ret True))"

section \<open>Lambda function deployer (lambda\_func/function\_deployer.py)\<close>

definition function_exists :: "'w provider \<Rightarrow> string \<Rightarrow> ('w, bool) prog" where
  "function_exists P function_name =
     except_ClientError
       (seq (call (GetFunction function_name) (lambda_get_function P function_name)) (\<lambda>_. ret True))
       (\<lambda>code. if code = ''ResourceNotFoundException'' then ret False else raise (ClientError code))"

definition create_function ::
  "'w provider \<Rightarrow> string \<Rightarrow> string \<Rightarrow> string \<Rightarrow> int \<Rightarrow> int \<Rightarrow> vpc_config option \<Rightarrow> ('w, string) prog" where
  "create_function P function_name ecr_image_uri role_arn memory_size timeout vpc_config =
     except_ClientError
       (seq (call (CreateFunction function_name role_arn ''Image'' ecr_image_uri memory_size timeout vpc_config)
               (lambda_create_function P function_name role_arn ''Image'' ecr_image_uri memory_size timeout
                  vpc_config)) (\<lambda>function_arn.
        seq (call (WaiterWait ''function_active'' function_name)
               (lambda_waiter_wait P ''function_active'' function_name)) (\<lambda>_.
        ret function_arn)))
       (\<lambda>code. raise (ClientError code))"

definition update_function_code :: "'w provider \<Rightarrow> string \<Rightarrow> string \<Rightarrow> ('w, string) prog" where
  "update_function_code P function_name ecr_image_uri =
     except_ClientError
       (seq (call (UpdateFunctionCode function_name ecr_image_uri)
               (lambda_update_function_code P function_name ecr_image_uri)) (\<lambda>function_arn.
        seq (call (WaiterWait ''function_updated'' function_name)
               (lambda_waiter_wait P ''function_updated'' function_name)) (\<lambda>_.
        ret function_arn)))
       (\<lambda>code. raise (ClientError code))"

definition update_function_configuration ::
  "'w provider \<Rightarrow> string \<Rightarrow> string \<Rightarrow> int \<Rightarrow> int \<Rightarrow> vpc_config option \<Rightarrow> ('w, string) prog" where
  "update_function_configuration P function_name role_arn memory_size timeout vpc_config =
     except_ClientError
       (let params = \<lparr>up_Role = Some role_arn, up_MemorySize = Some memory_size,
                       up_Timeout = Some timeout, up_VpcConfig = vpc_config, up_Environment = None\<rparr>
        in
        seq (call (UpdateFunctionConfiguration function_name params)
               (lambda_update_function_configuration P function_name params)) (\<lambda>function_arn.
        seq (call (WaiterWait ''function_updated'' function_name)
               (lambda_waiter_wait P ''function_updated'' function_name)) (\<lambda>_.
        ret function_arn)))
       (\<lambda>code. raise (ClientError code))"

definition deploy_function ::
  "'w provider \<Rightarrow> string \<Rightarrow> string \<Rightarrow> string \<Rightarrow> int \<Rightarrow> int \<Rightarrow> vpc_config option \<Rightarrow> ('w, string) prog" where
  "deploy_function P function_name ecr_image_uri role_arn memory_size timeout vpc_config =
     seq (function_exists P function_name) (\<lambda>fexists.
     if fexists then
       seq (update_function_code P function_name ecr_image_uri) (\<lambda>_.
       update_function_configuration P function_name role_arn memory_size timeout vpc_config)
     else
       create_function P function_name ecr_image_uri role_arn memory_size timeout vpc_config)"

section \<open>VPC configurator (vpc/configurator.py)\<close>

definition validate_vpc :: "'w provider \<Rightarrow> string \<Rightarrow> ('w, bool) prog" where
  "validate_vpc P vpc_id =
     except_ClientError
       (seq (call (DescribeVpcs [vpc_id]) (ec2_describe_vpcs P [vpc_id])) (\<lambda>response.
        case response of
          None \<Rightarrow> ret False
        | Some [] \<Rightarrow> ret False
        | Some (vpc # _) \<Rightarrow>
            if vpc_State vpc \<noteq> Some ''available'' then ret False else ret True))
       (\<lambda>code. if code = ''InvalidVpcID.NotFound'' then ret False else raise (ClientError code))"

text \<open>The \<open>for subnet in response['Subnets']\<close> loop, with its two early returns.\<close>

fun subnets_loop :: "subnet_desc list \<Rightarrow> string \<Rightarrow> bool" where
  "subnets_loop [] vpc_id = True"
| "subnets_loop (subnet # rest) vpc_id =
     (if subnet_VpcId subnet \<noteq> Some vpc_id then False
      else if subnet_State subnet \<noteq> Some ''available'' then False
      else subnets_loop rest vpc_id)"

definition validate_subnets :: "'w provider \<Rightarrow> string list \<Rightarrow> string \<Rightarrow> ('w, bool) prog" where
  "validate_subnets P subnet_ids vpc_id =
     except_ClientError
       (seq (call (DescribeSubnets subnet_ids) (ec2_describe_subnets P subnet_ids)) (\<lambda>response.
        if length (case response of None \<Rightarrow> [] | Some subnets \<Rightarrow> subnets) \<noteq> length subnet_ids
        then ret False
        else case response of
               None \<Rightarrow> raise (KeyError ''Subnets'')
             | Some subnets \<Rightarrow> ret (subnets_loop subnets vpc_id)))
       (\<lambda>code. if code = ''InvalidSubnetID.NotFound'' then ret False else raise (ClientError code))"

fun security_groups_loop :: "sg_desc list \<Rightarrow> string \<Rightarrow> bool" where
  "security_groups_loop [] vpc_id = True"
| "security_groups_loop (sg # rest) vpc_id =
     (if sg_VpcId sg \<noteq> Some vpc_id then False else security_groups_loop rest vpc_id)"

definition validate_security_groups :: "'w provider \<Rightarrow> string list \<Rightarrow> string \<Rightarrow> ('w, bool) prog" where
  "validate_security_groups P security_group_ids vpc_id =
     except_ClientError
       (seq (call (DescribeSecurityGroups security_group_ids)
               (ec2_describe_security_groups P security_group_ids)) (\<lambda>response.
        if length (case response of None \<Rightarrow> [] | Some sgs \<Rightarrow> sgs) \<noteq> length security_group_ids
        then ret False
        else case response of
               None \<Rightarrow> raise (KeyError ''SecurityGroups'')
             | Some sgs \<Rightarrow> ret (security_groups_loop sgs vpc_id)))
       (\<lambda>code. if code = ''InvalidGroup.NotFound'' then ret False else raise (ClientError code))"

text \<open>Python truthiness of an optional list: \<open>None\<close> and \<open>[]\<close> are both false.\<close>

definition truthy :: "'a list option \<Rightarrow> bool" where
  "truthy v = (case v of None \<Rightarrow> False | Some xs \<Rightarrow> xs \<noteq> [])"

definition create_vpc_config ::
  "'w provider \<Rightarrow> string \<Rightarrow> string list \<Rightarrow> string list option \<Rightarrow> ('w, vpc_config) prog" where
  "create_vpc_config P vpc_id subnet_ids security_group_ids =
     seq (validate_vpc P vpc_id) (\<lambda>vpc_ok.
     if \<not> vpc_ok then raise (ValueError ''Invalid VPC: {vpc_id}'' [Str vpc_id])
     else
     seq (validate_subnets P subnet_ids vpc_id) (\<lambda>subnets_ok.
     if \<not> subnets_ok then raise (ValueError ''Invalid subnets: {subnet_ids}'' [StrList subnet_ids])
     else
     seq (if truthy security_group_ids
          then validate_security_groups P (the security_group_ids) vpc_id
          else ret True) (\<lambda>sgs_ok.
     if truthy security_group_ids \<and> \<not> sgs_ok
     then raise (ValueError ''Invalid security groups: {security_group_ids}''
                   [StrList (the security_group_ids)])
     else
       ret \<lparr>SubnetIds = subnet_ids,
            SecurityGroupIds = (if truthy security_group_ids then security_group_ids else None)\<rparr>)))"

section \<open>IAM role manager (iam/role\_manager.py)\<close>

text \<open>
  The pagination loops (\<open>while response.get('IsTruncated', False)\<close>) run for as long as the
  provider reports more pages, so the functions that contain them are partial: \<open>None\<close> is
  a run that never returns.
\<close>

type_synonym ('w, 'a) pprog = "'w st \<Rightarrow> ((exn + 'a) \<times> 'w st) option"

definition lift :: "('w, 'a) prog \<Rightarrow> ('w, 'a) pprog" where
  "lift m = (\<lambda>s. Some (m s))"

definition pseq :: "('w, 'a) pprog \<Rightarrow> ('a \<Rightarrow> ('w, 'b) pprog) \<Rightarrow> ('w, 'b) pprog" where
  "pseq m k =
     (\<lambda>s. case m s of
             None \<Rightarrow> None
           | Some (Inl e, s') \<Rightarrow> Some (Inl e, s')
           | Some (Inr x, s') \<Rightarrow> k x s')"

definition pexcept_ClientError :: "('w, 'a) pprog \<Rightarrow> (string \<Rightarrow> ('w, 'a) pprog) \<Rightarrow> ('w, 'a) pprog" where
  "pexcept_ClientError m h =
     (\<lambda>s. case m s of
             Some (Inl (ClientError c), s') \<Rightarrow> h c s'
           | r \<Rightarrow> r)"

definition lambda_execution_trust_policy :: policy_document where
  "lambda_execution_trust_policy =
     \<lparr>Version = ''2012-10-17'',
      Statement = [\<lparr>Effect = ''Allow'', Principal_Service = Some ''lambda.amazonaws.com'',
                    Action = [''sts:AssumeRole''], Resource = []\<rparr>]\<rparr>"

definition s3_policy_document :: "string \<Rightarrow> policy_document" where
  "s3_policy_document s3_bucket =
     \<lparr>Version = ''2012-10-17'',
      Statement = [\<lparr>Effect = ''Allow'', Principal_Service = None,
                    Action = [''s3:GetObject'', ''s3:PutObject'', ''s3:ListBucket'', ''s3:DeleteObject''],
                    Resource = [''arn:aws:s3:::'' @ s3_bucket,
                                ''arn:aws:s3:::'' @ s3_bucket @ ''/*'']\<rparr>]\<rparr>"

definition basic_execution_policy_document :: policy_document where
  "basic_execution_policy_document =
     \<lparr>Version = ''2012-10-17'',
      Statement = [\<lparr>Effect = ''Allow'', Principal_Service = None,
                    Action = [''logs:CreateLogGroup'', ''logs:CreateLogStream'', ''logs:PutLogEvents''],
                    Resource = [''arn:aws:logs:*:*:*'']\<rparr>]\<rparr>"

definition get_account_id :: "'w provider \<Rightarrow> ('w, string) prog" where
  "get_account_id P = call GetCallerIdentity (sts_get_caller_identity P)"

text \<open>A \<open>for x in xs: body\<close> loop whose body may raise.\<close>

fun for_each :: "('a \<Rightarrow> ('w, unit) prog) \<Rightarrow> 'a list \<Rightarrow> ('w, unit) prog" where
  "for_each body [] = ret ()"
| "for_each body (x # xs) = seq (body x) (\<lambda>_. for_each body xs)"

text \<open>
  The loop that the source writes three times, each with its own listing call and its own
  body: while the last response is truncated, fetch the page after its marker and run the
  body on every item of it.
\<close>

partial_function (option) while_truncated ::
  "(string option \<Rightarrow> ('w, page) prog) \<Rightarrow> (string \<Rightarrow> ('w, unit) prog) \<Rightarrow> page \<Rightarrow> 'w st
     \<Rightarrow> ((exn + unit) \<times> 'w st) option" where
  "while_truncated list_page body response s =
     (if IsTruncated response then
        (case Marker response of
           None \<Rightarrow> Some (Inl (KeyError ''Marker''), s)
         | Some marker \<Rightarrow>
             (case list_page (Some marker) s of
                (Inl e, s') \<Rightarrow> Some (Inl e, s')
              | (Inr response', s') \<Rightarrow>
                  (case for_each body (items response') s' of
                     (Inl e, s'') \<Rightarrow> Some (Inl e, s'')
                   | (Inr _, s'') \<Rightarrow> while_truncated list_page body response' s'')))
      else Some (Inr (), s))"

definition paginate ::
  "(string option \<Rightarrow> ('w, page) prog) \<Rightarrow> (string \<Rightarrow> ('w, unit) prog) \<Rightarrow> ('w, unit) pprog" where
  "paginate list_page body =
     pseq (lift (list_page None)) (\<lambda>response.
     pseq (lift (for_each body (items response))) (\<lambda>_.
     while_truncated list_page body response))"

definition detach_policy_from_all_entities :: "'w provider \<Rightarrow> string \<Rightarrow> ('w, unit) pprog" where
  "detach_policy_from_all_entities P policy_arn =
     pexcept_ClientError
       (paginate
          (\<lambda>marker. call (ListEntitiesForPolicy policy_arn marker)
                       (iam_list_entities_for_policy P policy_arn marker))
          (\<lambda>role. call (DetachRolePolicy role policy_arn)
                     (iam_detach_role_policy P role policy_arn)))
       (\<lambda>code. lift (raise (ClientError code)))"

definition delete_policy :: "'w provider \<Rightarrow> string \<Rightarrow> ('w, unit) pprog" where
  "delete_policy P policy_arn =
     pexcept_ClientError
       (pseq (detach_policy_from_all_entities P policy_arn) (\<lambda>_.
        lift (call (DeletePolicy policy_arn) (iam_delete_policy P policy_arn))))
       (\<lambda>code. lift (raise (ClientError code)))"

definition create_s3_access_policy :: "'w provider \<Rightarrow> string \<Rightarrow> string \<Rightarrow> ('w, string) pprog" where
  "create_s3_access_policy P role_name s3_bucket =
     (let policy_name = role_name @ ''-s3-access'';
          policy_document = s3_policy_document s3_bucket
      in
      pexcept_ClientError
        (pseq (pexcept_ClientError
                 (pseq (lift (get_account_id P)) (\<lambda>account_id.
                  pseq (lift (call (GetPolicy (''arn:aws:iam::'' @ account_id @ '':policy/'' @ policy_name))
                                (iam_get_policy P (''arn:aws:iam::'' @ account_id @ '':policy/'' @ policy_name))))
                    (\<lambda>existing_arn.
                  delete_policy P existing_arn)))
                 (\<lambda>code. if code \<noteq> ''NoSuchEntity'' then lift (raise (ClientError code))
                          else lift (ret ()))) (\<lambda>_.
         lift (call (CreatePolicy policy_name policy_document
                       (''S3 access policy for Lambda function role '' @ role_name))
                 (iam_create_policy P policy_name policy_document
                       (''S3 access policy for Lambda function role '' @ role_name)))))
        (\<lambda>code. lift (raise (ClientError code))))"

definition detach_all_policies_from_role :: "'w provider \<Rightarrow> string \<Rightarrow> ('w, unit) pprog" where
  "detach_all_policies_from_role P role_name =
     pexcept_ClientError
       (pseq (paginate
                (\<lambda>marker. call (ListAttachedRolePolicies role_name marker)
                             (iam_list_attached_role_policies P role_name marker))
                (\<lambda>policy_arn. call (DetachRolePolicy role_name policy_arn)
                                 (iam_detach_role_policy P role_name policy_arn))) (\<lambda>_.
        paginate
          (\<lambda>marker. call (ListRolePolicies role_name marker)
                       (iam_list_role_policies P role_name marker))
          (\<lambda>policy_name. call (DeleteRolePolicy role_name policy_name)
                            (iam_delete_role_policy P role_name policy_name))))
       (\<lambda>code. lift (raise (ClientError code)))"

definition delete_role :: "'w provider \<Rightarrow> string \<Rightarrow> ('w, unit) pprog" where
  "delete_role P role_name =
     pexcept_ClientError
       (pseq (detach_all_policies_from_role P role_name) (\<lambda>_.
        lift (call (DeleteRole role_name) (iam_delete_role P role_name))))
       (\<lambda>code. lift (raise (ClientError code)))"

definition role_exists :: "'w provider \<Rightarrow> string \<Rightarrow> ('w, bool) prog" where
  "role_exists P role_name =
     except_ClientError
       (seq (call (GetRole role_name) (iam_get_role P role_name)) (\<lambda>_. ret True))
       (\<lambda>code. if code = ''NoSuchEntity'' then ret False else raise (ClientError code))"

text \<open>\<open>time.sleep(5)\<close> after the attachment is a delay, not a request, and is left out.\<close>

definition create_role :: "'w provider \<Rightarrow> string \<Rightarrow> ('w, string) prog" where
  "create_role P role_name =
     except_ClientError
       (seq (call (CreateRole role_name lambda_execution_trust_policy
                     ''Role for Lambda function execution with S3 access'')
               (iam_create_role P role_name lambda_execution_trust_policy
                     ''Role for Lambda function execution with S3 access'')) (\<lambda>role_arn.
        let basic_execution_policy_name = role_name @ ''-basic-execution'' in
        seq (except_ClientError
               (seq (call (CreatePolicy basic_execution_policy_name basic_execution_policy_document
                             (''Basic execution policy for Lambda function role '' @ role_name))
                       (iam_create_policy P basic_execution_policy_name basic_execution_policy_document
                             (''Basic execution policy for Lambda function role '' @ role_name)))
                  (\<lambda>basic_policy_arn.
                call (AttachRolePolicy role_name basic_policy_arn)
                  (iam_attach_role_policy P role_name basic_policy_arn)))
               (\<lambda>code.
                  if code = ''EntityAlreadyExists'' then
                    seq (get_account_id P) (\<lambda>account_id.
                    let basic_policy_arn =
                          ''arn:aws:iam::'' @ account_id @ '':policy/'' @ basic_execution_policy_name
                    in call (AttachRolePolicy role_name basic_policy_arn)
                         (iam_attach_role_policy P role_name basic_policy_arn))
                  else raise (ClientError code))) (\<lambda>_.
        ret role_arn)))
       (\<lambda>code. raise (ClientError code))"

definition create_or_update_role :: "'w provider \<Rightarrow> string \<Rightarrow> string \<Rightarrow> bool \<Rightarrow> ('w, string) pprog" where
  "create_or_update_role P role_name s3_bucket force_recreate =
     pseq (lift (role_exists P role_name)) (\<lambda>rexists.
     pseq (if rexists \<and> force_recreate
           then pseq (delete_role P role_name) (\<lambda>_. lift (ret False))
           else lift (ret rexists)) (\<lambda>rexists.
     pseq (if \<not> rexists then lift (create_role P role_name)
           else lift (call (GetRole role_name) (iam_get_role P role_name))) (\<lambda>role_arn.
     pseq (create_s3_access_policy P role_name s3_bucket) (\<lambda>s3_policy_arn.
     pseq (lift (call (AttachRolePolicy role_name s3_policy_arn)
                   (iam_attach_role_policy P role_name s3_policy_arn))) (\<lambda>_.
     lift (ret role_arn))))))"

section \<open>Orchestrator (main.py)\<close>

record deployment_result =
  function_arn :: string
  role_arn :: string

definition deploy ::
  "'w provider \<Rightarrow> string \<Rightarrow> string \<Rightarrow> string \<Rightarrow> string option \<Rightarrow> int \<Rightarrow> int \<Rightarrow> string option
     \<Rightarrow> string list option \<Rightarrow> string list option \<Rightarrow> bool \<Rightarrow> ('w, deployment_result) pprog" where
  "deploy P ecr_image_uri function_name s3_bucket role_name memory_size timeout vpc_id subnet_ids
       security_group_ids force_recreate_role =
     (if ecr_image_uri = [] then lift (raise (ValueError ''ECR image URI is required'' []))
      else if function_name = [] then lift (raise (ValueError ''Function name is required'' []))
      else if s3_bucket = [] then lift (raise (ValueError ''S3 bucket name is required'' []))
      else
        let role_name = (if truthy role_name then the role_name
                         else ''lambda-'' @ function_name @ ''-role'')
        in
        pseq (if truthy vpc_id then
                (if \<not> truthy subnet_ids
                 then lift (raise (ValueError
                        ''Subnet IDs must be provided when using VPC configuration'' []))
                 else pseq (lift (create_vpc_config P (the vpc_id) (the subnet_ids) security_group_ids))
                        (\<lambda>cfg. lift (ret (Some cfg))))
              else lift (ret None)) (\<lambda>vpc_config.
        pseq (create_or_update_role P role_name s3_bucket force_recreate_role) (\<lambda>role_arn.
        pseq (lift (deploy_function P function_name ecr_image_uri role_arn memory_size timeout
                      vpc_config)) (\<lambda>function_arn.
        pseq (lift (configure_s3_access P function_name s3_bucket)) (\<lambda>_.
        lift (ret \<lparr>function_arn = function_arn, role_arn = role_arn\<rparr>))))))"

section \<open>Test doubles\<close>

text \<open>
  Providers with scripted answers, in the manner of the unit tests' \<open>MagicMock\<close> clients.
  They are used only to instantiate the theorems below at concrete inputs.
\<close>

definition mock_provider :: "'w provider" where
  "mock_provider =
     \<lparr>iam_get_role = (\<lambda>name w. (Inr (''arn:aws:iam::123456789012:role/'' @ name), w)),
      iam_create_role = (\<lambda>name doc desc w. (Inr (''arn:aws:iam::123456789012:role/'' @ name), w)),
      iam_delete_role = (\<lambda>name w. (Inr (), w)),
      iam_get_policy = (\<lambda>arn w. (Inl (ClientError ''NoSuchEntity''), w)),
      iam_create_policy = (\<lambda>name doc desc w. (Inr (''arn:aws:iam::123456789012:policy/'' @ name), w)),
      iam_delete_policy = (\<lambda>arn w. (Inr (), w)),
      iam_attach_role_policy = (\<lambda>role arn w. (Inr (), w)),
      iam_detach_role_policy = (\<lambda>role arn w. (Inr (), w)),
      iam_list_entities_for_policy =
        (\<lambda>arn marker w. (Inr \<lparr>items = [], IsTruncated = False, Marker = None\<rparr>, w)),
      iam_list_attached_role_policies =
        (\<lambda>role marker w. (Inr \<lparr>items = [], IsTruncated = False, Marker = None\<rparr>, w)),
      iam_list_role_policies =
        (\<lambda>role marker w. (Inr \<lparr>items = [], IsTruncated = False, Marker = None\<rparr>, w)),
      iam_delete_role_policy = (\<lambda>role name w. (Inr (), w)),
      sts_get_caller_identity = (\<lambda>w. (Inr ''123456789012'', w)),
      lambda_get_function = (\<lambda>name w. (Inr (), w)),
      lambda_create_function =
        (\<lambda>name role pt uri mem tmo vpc w. (Inr (''arn:aws:lambda:us-east-1:123456789012:function:'' @ name), w)),
      lambda_update_function_code =
        (\<lambda>name uri w. (Inr (''arn:aws:lambda:us-east-1:123456789012:function:'' @ name), w)),
      lambda_update_function_configuration =
        (\<lambda>name params w. (Inr (''arn:aws:lambda:us-east-1:123456789012:function:'' @ name), w)),
      lambda_get_function_configuration =
        (\<lambda>name w. (Inr (Some [(''EXISTING_VAR'', ''existing_value'')]), w)),
      lambda_waiter_wait = (\<lambda>waiter name w. (Inr (), w)),
      s3_head_bucket = (\<lambda>bucket w. (Inr (), w)),
      ec2_describe_vpcs = (\<lambda>ids w. (Inr (Some [\<lparr>vpc_State = Some ''available''\<rparr>]), w)),
      ec2_describe_subnets =
        (\<lambda>ids w. (Inr (Some (map (\<lambda>_. \<lparr>subnet_VpcId = Some ''vpc-1'', subnet_State = Some ''available''\<rparr>) ids)), w)),
      ec2_describe_security_groups =
        (\<lambda>ids w. (Inr (Some (map (\<lambda>_. \<lparr>sg_VpcId = Some ''vpc-1''\<rparr>) ids)), w))\<rparr>"

definition faulty_provider :: "string \<Rightarrow> unit provider" where
  "faulty_provider c =
     mock_provider\<lparr>iam_get_role := (\<lambda>name w. (Inl (ClientError c), w)),
                   lambda_get_function := (\<lambda>name w. (Inl (ClientError c), w)),
                   s3_head_bucket := (\<lambda>name w. (Inl (ClientError c), w))\<rparr>"

definition foreign_sg_provider :: "unit provider" where
  "foreign_sg_provider =
     mock_provider\<lparr>ec2_describe_security_groups :=
                     (\<lambda>ids w. (Inr (Some (map (\<lambda>_. \<lparr>sg_VpcId = Some ''vpc-9''\<rparr>) ids)), w))\<rparr>"

section \<open>A reference identity service\<close>




















section \<open>Proof support\<close>

text \<open>The three existence probes share one shape.\<close>

definition probe :: "request \<Rightarrow> ('w, 'a) handler \<Rightarrow> (string \<Rightarrow> bool) \<Rightarrow> ('w, bool) prog" where
  "probe rq h absent =
     except_ClientError (seq (call rq h) (\<lambda>_. ret True))
       (\<lambda>code. if absent code then ret False else raise (ClientError code))"

text \<open>
  \<open>emits Q m\<close>: every run of \<open>m\<close> only appends to the log, and appends only requests that
  satisfy \<open>Q\<close>. \<open>pemits\<close> says the same of the runs of a partial program that return.
\<close>

definition emits :: "(request \<Rightarrow> bool) \<Rightarrow> ('w, 'a) prog \<Rightarrow> bool" where
  "emits Q m = (\<forall>w log. \<exists>new. snd (snd (m (w, log))) = log @ new \<and> list_all Q new)"

definition pemits :: "(request \<Rightarrow> bool) \<Rightarrow> ('w, 'a) pprog \<Rightarrow> bool" where
  "pemits Q m =
     (\<forall>w log r w' log'. m (w, log) = Some (r, (w', log')) \<longrightarrow> (\<exists>new. log' = log @ new \<and> list_all Q new))"

text \<open>Counting the requests of a kind in a log.\<close>

fun is_update_function_code :: "request \<Rightarrow> bool" where
  "is_update_function_code (UpdateFunctionCode _ _) = True"
| "is_update_function_code _ = False"

fun is_update_function_configuration :: "request \<Rightarrow> bool" where
  "is_update_function_configuration (UpdateFunctionConfiguration _ _) = True"
| "is_update_function_configuration _ = False"

fun is_create_function :: "request \<Rightarrow> bool" where
  "is_create_function (CreateFunction _ _ _ _ _ _ _) = True"
| "is_create_function _ = False"

text \<open>Requests to the identity service (IAM and STS) and to the network service (EC2).\<close>

fun identity_request :: "request \<Rightarrow> bool" where
  "identity_request (GetRole _) = True"
| "identity_request (CreateRole _ _ _) = True"
| "identity_request (DeleteRole _) = True"
| "identity_request (GetPolicy _) = True"
| "identity_request (CreatePolicy _ _ _) = True"
| "identity_request (DeletePolicy _) = True"
| "identity_request (AttachRolePolicy _ _) = True"
| "identity_request (DetachRolePolicy _ _) = True"
| "identity_request (ListEntitiesForPolicy _ _) = True"
| "identity_request (ListAttachedRolePolicies _ _) = True"
| "identity_request (ListRolePolicies _ _) = True"
| "identity_request (DeleteRolePolicy _ _) = True"
| "identity_request GetCallerIdentity = True"
| "identity_request _ = False"

fun network_request :: "request \<Rightarrow> bool" where
  "network_request (DescribeVpcs _) = True"
| "network_request (DescribeSubnets _) = True"
| "network_request (DescribeSecurityGroups _) = True"
| "network_request _ = False"










lemma seq_cases:
  "seq m k s = (case m s of (Inl e, s') \<Rightarrow> (Inl e, s') | (Inr x, s') \<Rightarrow> k x s')"
  by (simp add: seq_def)

lemma reraise [simp]: "except_ClientError m (\<lambda>code. raise (ClientError code)) = m"
  by (rule ext) (simp add: except_ClientError_def raise_def split: prod.split sum.split exn.split)

lemma probe_run:
  "probe rq h absent (w, log) =
     (case h w of
        (Inr x, w') \<Rightarrow> (Inr True, (w', log @ [rq]))
      | (Inl (ClientError c), w') \<Rightarrow>
          ((if absent c then Inr False else Inl (ClientError c)), (w', log @ [rq]))
      | (Inl e, w') \<Rightarrow> (Inl e, (w', log @ [rq])))"
  by (simp add: probe_def except_ClientError_def seq_def call_def ret_def raise_def
           split: prod.split sum.split exn.split)

lemma bucket_exists_probe:
  "bucket_exists P b = probe (HeadBucket b) (s3_head_bucket P b) (\<lambda>c. c = ''404'' \<or> c = ''403'')"
  by (rule ext) (simp add: bucket_exists_def probe_def except_ClientError_def
       split: prod.split sum.split exn.split)

lemma role_exists_probe:
  "role_exists P r = probe (GetRole r) (iam_get_role P r) (\<lambda>c. c = ''NoSuchEntity'')"
  by (simp add: role_exists_def probe_def)

lemma function_exists_probe:
  "function_exists P f =
     probe (GetFunction f) (lambda_get_function P f) (\<lambda>c. c = ''ResourceNotFoundException'')"
  by (simp add: function_exists_def probe_def)

section \<open>Existence checks\<close>

text \<open>
  Claim C5, as the spec states it, says that every existence check turns a "not found" fault
  into the negative answer and re-raises every fault with any other code. The bucket probe
  does not: a fault with code 403 (forbidden) is no "not found" fault, and
  \<open>_bucket_exists\<close> answers \<open>False\<close> for it instead of re-raising.
\<close>

theorem bucket_probe_forbidden_counterexample:
  "s3_head_bucket (faulty_provider ''403'') ''b'' () = (Inl (ClientError ''403''), ())
   \<and> bucket_exists (faulty_provider ''403'') ''b'' ((), []) = (Inr False, ((), [HeadBucket ''b'']))"
  by (simp add: bucket_exists_probe probe_run faulty_provider_def mock_provider_def)

text \<open>
  Claim C5, amended: when the collaborator answers the probe with a fault of code \<open>c\<close>,
  the role check answers \<open>False\<close> for \<open>NoSuchEntity\<close>, the function check answers \<open>False\<close>
  for \<open>ResourceNotFoundException\<close>, the bucket check answers \<open>False\<close> for \<open>404\<close> and for
  \<open>403\<close>; each of them re-raises the fault for every other code. In all cases exactly the
  probe request has been issued.
\<close>

theorem existence_checks_on_fault:
  "(iam_get_role P name w = (Inl (ClientError c), w') \<longrightarrow>
      role_exists P name (w, log) =
        ((if c = ''NoSuchEntity'' then Inr False else Inl (ClientError c)),
         (w', log @ [GetRole name])))
   \<and> (lambda_get_function P name w = (Inl (ClientError c), w') \<longrightarrow>
      function_exists P name (w, log) =
        ((if c = ''ResourceNotFoundException'' then Inr False else Inl (ClientError c)),
         (w', log @ [GetFunction name])))
   \<and> (s3_head_bucket P name w = (Inl (ClientError c), w') \<longrightarrow>
      bucket_exists P name (w, log) =
        ((if c = ''404'' \<or> c = ''403'' then Inr False else Inl (ClientError c)),
         (w', log @ [HeadBucket name])))"
  by (simp add: bucket_exists_probe role_exists_probe function_exists_probe probe_run)

theorem existence_checks_on_fault_witness:
  "iam_get_role (faulty_provider ''AccessDenied'') ''r'' () = (Inl (ClientError ''AccessDenied''), ())
   \<and> lambda_get_function (faulty_provider ''AccessDenied'') ''r'' () =
        (Inl (ClientError ''AccessDenied''), ())
   \<and> s3_head_bucket (faulty_provider ''AccessDenied'') ''r'' () =
        (Inl (ClientError ''AccessDenied''), ())
   \<and> role_exists (faulty_provider ''AccessDenied'') ''r'' ((), []) =
        (Inl (ClientError ''AccessDenied''), ((), [GetRole ''r'']))
   \<and> function_exists (faulty_provider ''AccessDenied'') ''r'' ((), []) =
        (Inl (ClientError ''AccessDenied''), ((), [GetFunction ''r'']))
   \<and> bucket_exists (faulty_provider ''AccessDenied'') ''r'' ((), []) =
        (Inl (ClientError ''AccessDenied''), ((), [HeadBucket ''r'']))"
  using existence_checks_on_fault
          [of "faulty_provider ''AccessDenied''" "''r''" "()" "''AccessDenied''" "()" "[]"]
  by (simp add: faulty_provider_def mock_provider_def)

section \<open>Storage access\<close>


lemma seq_ret_True:
  "\<exists>s'. seq m (\<lambda>_. ret True) s = (Inr True, s') \<or> (\<exists>e. seq m (\<lambda>_. ret True) s = (Inl e, s'))"
  by (simp add: seq_def ret_def split: prod.split sum.split)

text \<open>
  Claim C6: when the reachability probe of the bucket is answered with a fault of code
  404 (not found) or 403 (forbidden), \<open>configure_s3_access\<close> raises the bucket-unavailable
  \<open>ValueError\<close>; the only request issued is the probe itself, so that no function
  configuration update is made; and the error raised is the same for both codes.
\<close>

theorem configure_s3_access_bucket_unavailable:
  assumes "s3_head_bucket P b w = (Inl (ClientError c), w')" and "c = ''404'' \<or> c = ''403''"
  shows "configure_s3_access P fn b (w, log) =
           (Inl (ValueError ''S3 bucket {s3_bucket} does not exist or is not accessible'' [Str b]),
            (w', log @ [HeadBucket b]))"
proof -
  have "bucket_exists P b (w, log) = (Inr False, (w', log @ [HeadBucket b]))"
    using assms by (auto simp add: bucket_exists_probe probe_run)
  then show ?thesis by (simp add: configure_s3_access_def seq_def raise_def)
qed

theorem configure_s3_access_bucket_unavailable_witness:
  "s3_head_bucket (faulty_provider ''403'') ''b'' () = (Inl (ClientError ''403''), ())
   \<and> s3_head_bucket (faulty_provider ''404'') ''b'' () = (Inl (ClientError ''404''), ())
   \<and> configure_s3_access (faulty_provider ''403'') ''f'' ''b'' ((), []) =
       (Inl (ValueError ''S3 bucket {s3_bucket} does not exist or is not accessible'' [Str ''b'']),
        ((), [HeadBucket ''b'']))
   \<and> configure_s3_access (faulty_provider ''404'') ''f'' ''b'' ((), []) =
       (Inl (ValueError ''S3 bucket {s3_bucket} does not exist or is not accessible'' [Str ''b'']),
        ((), [HeadBucket ''b'']))"
proof -
  have h3: "s3_head_bucket (faulty_provider ''403'') ''b'' () = (Inl (ClientError ''403''), ())"
    and h4: "s3_head_bucket (faulty_provider ''404'') ''b'' () = (Inl (ClientError ''404''), ())"
    by (simp_all add: faulty_provider_def)
  have r3: "configure_s3_access (faulty_provider ''403'') ''f'' ''b'' ((), []) =
       (Inl (ValueError ''S3 bucket {s3_bucket} does not exist or is not accessible'' [Str ''b'']),
        ((), [] @ [HeadBucket ''b'']))"
    by (rule configure_s3_access_bucket_unavailable [OF h3]) simp
  have r4: "configure_s3_access (faulty_provider ''404'') ''f'' ''b'' ((), []) =
       (Inl (ValueError ''S3 bucket {s3_bucket} does not exist or is not accessible'' [Str ''b'']),
        ((), [] @ [HeadBucket ''b'']))"
    by (rule configure_s3_access_bucket_unavailable [OF h4]) simp
  show ?thesis using h3 h4 r3 r4 by simp
qed



text \<open>
  Claim C10: \<open>configure_s3_access\<close> never returns \<open>False\<close>. Every run ends either with
  the value \<open>True\<close> or with an exception; the docstring's "False otherwise" cannot occur.
\<close>

theorem configure_s3_access_True_or_raises:
  "\<exists>s'. configure_s3_access P fn b s = (Inr True, s')
        \<or> (\<exists>e. configure_s3_access P fn b s = (Inl e, s'))"
proof -
  obtain r s1 where run: "bucket_exists P b s = (r, s1)" by (cases "bucket_exists P b s")
  show ?thesis
  proof (cases r)
    case (Inl e)
    with run show ?thesis by (simp add: configure_s3_access_def seq_def)
  next
    case (Inr ex)
    with run show ?thesis
      using seq_ret_True [of "update_lambda_environment P fn b" s1]
      by (cases ex) (simp_all add: configure_s3_access_def seq_cases [of "bucket_exists P b"] raise_def)
  qed
qed

section \<open>Network attachment\<close>

lemma validate_vpc_run:
  "validate_vpc P vpc_id (w, log) =
     (case ec2_describe_vpcs P [vpc_id] w of
        (Inr response, w') \<Rightarrow>
          (Inr (case response of None \<Rightarrow> False | Some [] \<Rightarrow> False
                | Some (vpc # _) \<Rightarrow> vpc_State vpc = Some ''available''),
           (w', log @ [DescribeVpcs [vpc_id]]))
      | (Inl (ClientError c), w') \<Rightarrow>
          ((if c = ''InvalidVpcID.NotFound'' then Inr False else Inl (ClientError c)),
           (w', log @ [DescribeVpcs [vpc_id]]))
      | (Inl e, w') \<Rightarrow> (Inl e, (w', log @ [DescribeVpcs [vpc_id]])))"
  by (simp add: validate_vpc_def except_ClientError_def seq_def call_def ret_def raise_def
           split: prod.split sum.split exn.split option.split list.split)

lemma validate_subnets_run:
  "validate_subnets P subnet_ids vpc_id (w, log) =
     (case ec2_describe_subnets P subnet_ids w of
        (Inr response, w') \<Rightarrow>
          ((case response of
              None \<Rightarrow> if subnet_ids = [] then Inl (KeyError ''Subnets'') else Inr False
            | Some subnets \<Rightarrow>
                Inr (length subnets = length subnet_ids \<and> subnets_loop subnets vpc_id)),
           (w', log @ [DescribeSubnets subnet_ids]))
      | (Inl (ClientError c), w') \<Rightarrow>
          ((if c = ''InvalidSubnetID.NotFound'' then Inr False else Inl (ClientError c)),
           (w', log @ [DescribeSubnets subnet_ids]))
      | (Inl e, w') \<Rightarrow> (Inl e, (w', log @ [DescribeSubnets subnet_ids])))"
  by (auto simp add: validate_subnets_def except_ClientError_def seq_def call_def ret_def raise_def
           split: prod.split sum.split exn.split option.split)

lemma validate_security_groups_run:
  "validate_security_groups P ids vpc_id (w, log) =
     (case ec2_describe_security_groups P ids w of
        (Inr response, w') \<Rightarrow>
          ((case response of
              None \<Rightarrow> if ids = [] then Inl (KeyError ''SecurityGroups'') else Inr False
            | Some sgs \<Rightarrow>
                Inr (length sgs = length ids \<and> security_groups_loop sgs vpc_id)),
           (w', log @ [DescribeSecurityGroups ids]))
      | (Inl (ClientError c), w') \<Rightarrow>
          ((if c = ''InvalidGroup.NotFound'' then Inr False else Inl (ClientError c)),
           (w', log @ [DescribeSecurityGroups ids]))
      | (Inl e, w') \<Rightarrow> (Inl e, (w', log @ [DescribeSecurityGroups ids])))"
  by (auto simp add: validate_security_groups_def except_ClientError_def seq_def call_def ret_def raise_def
           split: prod.split sum.split exn.split option.split)

lemma subnets_loop_iff:
  "subnets_loop subnets vpc_id \<longleftrightarrow>
     (\<forall>sn\<in>set subnets. subnet_VpcId sn = Some vpc_id \<and> subnet_State sn = Some ''available'')"
  by (induction subnets) auto

lemma security_groups_loop_iff:
  "security_groups_loop sgs vpc_id \<longleftrightarrow> (\<forall>g\<in>set sgs. sg_VpcId g = Some vpc_id)"
  by (induction sgs) auto

lemma create_vpc_config_no_sgs:
  assumes "\<not> truthy sgs"
  shows "create_vpc_config P vpc_id subnet_ids sgs s =
     (case validate_vpc P vpc_id s of
        (Inl e, s1) \<Rightarrow> (Inl e, s1)
      | (Inr False, s1) \<Rightarrow> (Inl (ValueError ''Invalid VPC: {vpc_id}'' [Str vpc_id]), s1)
      | (Inr True, s1) \<Rightarrow>
          (case validate_subnets P subnet_ids vpc_id s1 of
             (Inl e, s2) \<Rightarrow> (Inl e, s2)
           | (Inr False, s2) \<Rightarrow>
               (Inl (ValueError ''Invalid subnets: {subnet_ids}'' [StrList subnet_ids]), s2)
           | (Inr True, s2) \<Rightarrow> (Inr \<lparr>SubnetIds = subnet_ids, SecurityGroupIds = None\<rparr>, s2)))"
  using assms
  by (simp add: create_vpc_config_def seq_def ret_def raise_def
        split: prod.split sum.split bool.split)

lemma create_vpc_config_sgs:
  assumes "ids \<noteq> []"
  shows "create_vpc_config P vpc_id subnet_ids (Some ids) s =
     (case validate_vpc P vpc_id s of
        (Inl e, s1) \<Rightarrow> (Inl e, s1)
      | (Inr False, s1) \<Rightarrow> (Inl (ValueError ''Invalid VPC: {vpc_id}'' [Str vpc_id]), s1)
      | (Inr True, s1) \<Rightarrow>
          (case validate_subnets P subnet_ids vpc_id s1 of
             (Inl e, s2) \<Rightarrow> (Inl e, s2)
           | (Inr False, s2) \<Rightarrow>
               (Inl (ValueError ''Invalid subnets: {subnet_ids}'' [StrList subnet_ids]), s2)
           | (Inr True, s2) \<Rightarrow>
               (case validate_security_groups P ids vpc_id s2 of
                  (Inl e, s3) \<Rightarrow> (Inl e, s3)
                | (Inr False, s3) \<Rightarrow>
                    (Inl (ValueError ''Invalid security groups: {security_group_ids}'' [StrList ids]), s3)
                | (Inr True, s3) \<Rightarrow>
                    (Inr \<lparr>SubnetIds = subnet_ids, SecurityGroupIds = Some ids\<rparr>, s3))))"
  using assms
  by (simp add: create_vpc_config_def truthy_def seq_def ret_def raise_def
        split: prod.split sum.split bool.split)

lemma validate_vpc_log:
  "\<exists>r w'. validate_vpc P vpc_id (w, log) = (r, (w', log @ [DescribeVpcs [vpc_id]]))"
  by (simp add: validate_vpc_run split: prod.split sum.split exn.split)

lemma validate_subnets_log:
  "\<exists>r w'. validate_subnets P ids vpc_id (w, log) = (r, (w', log @ [DescribeSubnets ids]))"
  by (simp add: validate_subnets_run split: prod.split sum.split exn.split)

lemma create_vpc_config_no_sgs_log:
  assumes "\<not> truthy sgs"
  shows "\<exists>r w' new. create_vpc_config P vpc_id subnet_ids sgs (w, log) = (r, (w', log @ new))
            \<and> set new \<subseteq> {DescribeVpcs [vpc_id], DescribeSubnets subnet_ids}"
proof -
  obtain r1 w1 where v: "validate_vpc P vpc_id (w, log) = (r1, (w1, log @ [DescribeVpcs [vpc_id]]))"
    using validate_vpc_log [of P vpc_id w log] by blast
  obtain r2 w2 where sn: "validate_subnets P subnet_ids vpc_id (w1, log @ [DescribeVpcs [vpc_id]]) =
       (r2, (w2, (log @ [DescribeVpcs [vpc_id]]) @ [DescribeSubnets subnet_ids]))"
    using validate_subnets_log [of P subnet_ids vpc_id w1 "log @ [DescribeVpcs [vpc_id]]"] by blast
  have "\<exists>r w'. create_vpc_config P vpc_id subnet_ids sgs (w, log) = (r, (w', log @ [DescribeVpcs [vpc_id]]))
          \<or> create_vpc_config P vpc_id subnet_ids sgs (w, log) =
               (r, (w', log @ [DescribeVpcs [vpc_id], DescribeSubnets subnet_ids]))"
    by (simp add: create_vpc_config_no_sgs [OF assms] v sn split: sum.split bool.split)
  then obtain r w' where
    "create_vpc_config P vpc_id subnet_ids sgs (w, log) = (r, (w', log @ [DescribeVpcs [vpc_id]]))
      \<or> create_vpc_config P vpc_id subnet_ids sgs (w, log) =
               (r, (w', log @ [DescribeVpcs [vpc_id], DescribeSubnets subnet_ids]))" by blast
  then show ?thesis
  proof
    assume "create_vpc_config P vpc_id subnet_ids sgs (w, log) = (r, (w', log @ [DescribeVpcs [vpc_id]]))"
    then show ?thesis by (intro exI [of _ r] exI [of _ w'] exI [of _ "[DescribeVpcs [vpc_id]]"]) simp
  next
    assume "create_vpc_config P vpc_id subnet_ids sgs (w, log) =
               (r, (w', log @ [DescribeVpcs [vpc_id], DescribeSubnets subnet_ids]))"
    then show ?thesis
      by (intro exI [of _ r] exI [of _ w'] exI [of _ "[DescribeVpcs [vpc_id], DescribeSubnets subnet_ids]"]) simp
  qed
qed

text \<open>
  Claim C4: take a call of \<open>create_vpc_config\<close> whose VPC is reported available and whose
  subnets are described by the provider. If one of the described subnets has a parent VPC
  other than \<open>vpc_id\<close>, the call raises the invalid-subnets \<open>ValueError\<close>. If the subnets
  are all valid and security groups are supplied, of which one has a parent VPC other
  than \<open>vpc_id\<close>, the call raises the invalid-security-groups \<open>ValueError\<close>. If everything
  is valid, the call returns a descriptor whose \<open>SubnetIds\<close> is the input list; the
  descriptor has no \<open>SecurityGroupIds\<close> key when no security groups were supplied, and
  carries the supplied list otherwise.
\<close>

theorem create_vpc_config_validates:
  assumes vpc: "ec2_describe_vpcs P [vpc_id] w = (Inr (Some (vpc # others)), w1)"
               "vpc_State vpc = Some ''available''"
    and subnets: "ec2_describe_subnets P subnet_ids w1 = (Inr (Some subnets), w2)"
  shows
   "((\<exists>sn\<in>set subnets. subnet_VpcId sn \<noteq> Some vpc_id) \<longrightarrow>
       create_vpc_config P vpc_id subnet_ids sgs (w, log) =
         (Inl (ValueError ''Invalid subnets: {subnet_ids}'' [StrList subnet_ids]),
          (w2, log @ [DescribeVpcs [vpc_id], DescribeSubnets subnet_ids])))
    \<and> (length subnets = length subnet_ids
         \<and> (\<forall>sn\<in>set subnets. subnet_VpcId sn = Some vpc_id \<and> subnet_State sn = Some ''available'') \<longrightarrow>
       (\<not> truthy sgs \<longrightarrow>
          create_vpc_config P vpc_id subnet_ids sgs (w, log) =
            (Inr \<lparr>SubnetIds = subnet_ids, SecurityGroupIds = None\<rparr>,
             (w2, log @ [DescribeVpcs [vpc_id], DescribeSubnets subnet_ids])))
       \<and> (\<forall>ids groups w3.
            sgs = Some ids \<and> ids \<noteq> []
            \<and> ec2_describe_security_groups P ids w2 = (Inr (Some groups), w3) \<longrightarrow>
            ((\<exists>g\<in>set groups. sg_VpcId g \<noteq> Some vpc_id) \<longrightarrow>
               create_vpc_config P vpc_id subnet_ids sgs (w, log) =
                 (Inl (ValueError ''Invalid security groups: {security_group_ids}'' [StrList ids]),
                  (w3, log @ [DescribeVpcs [vpc_id], DescribeSubnets subnet_ids,
                              DescribeSecurityGroups ids])))
            \<and> (length groups = length ids \<and> (\<forall>g\<in>set groups. sg_VpcId g = Some vpc_id) \<longrightarrow>
               create_vpc_config P vpc_id subnet_ids sgs (w, log) =
                 (Inr \<lparr>SubnetIds = subnet_ids, SecurityGroupIds = Some ids\<rparr>,
                  (w3, log @ [DescribeVpcs [vpc_id], DescribeSubnets subnet_ids,
                              DescribeSecurityGroups ids])))))"
proof -
  have v: "validate_vpc P vpc_id (w, log) = (Inr True, (w1, log @ [DescribeVpcs [vpc_id]]))"
    using vpc by (simp add: validate_vpc_run)
  have sn: "validate_subnets P subnet_ids vpc_id (w1, log @ [DescribeVpcs [vpc_id]]) =
       (Inr (length subnets = length subnet_ids \<and> subnets_loop subnets vpc_id),
        (w2, log @ [DescribeVpcs [vpc_id], DescribeSubnets subnet_ids]))"
    using subnets by (simp add: validate_subnets_run)
  have bad: "\<exists>sn\<in>set subnets. subnet_VpcId sn \<noteq> Some vpc_id \<Longrightarrow> \<not> subnets_loop subnets vpc_id"
    by (auto simp add: subnets_loop_iff)
  have p1: "(\<exists>sn\<in>set subnets. subnet_VpcId sn \<noteq> Some vpc_id) \<longrightarrow>
       create_vpc_config P vpc_id subnet_ids sgs (w, log) =
         (Inl (ValueError ''Invalid subnets: {subnet_ids}'' [StrList subnet_ids]),
          (w2, log @ [DescribeVpcs [vpc_id], DescribeSubnets subnet_ids]))"
  proof
    assume "\<exists>sn\<in>set subnets. subnet_VpcId sn \<noteq> Some vpc_id"
    then have f: "\<not> subnets_loop subnets vpc_id" by (rule bad)
    show "create_vpc_config P vpc_id subnet_ids sgs (w, log) =
         (Inl (ValueError ''Invalid subnets: {subnet_ids}'' [StrList subnet_ids]),
          (w2, log @ [DescribeVpcs [vpc_id], DescribeSubnets subnet_ids]))"
      using f by (simp add: create_vpc_config_def seq_def v sn raise_def)
  qed
  have p2: "length subnets = length subnet_ids
         \<and> (\<forall>sn\<in>set subnets. subnet_VpcId sn = Some vpc_id \<and> subnet_State sn = Some ''available'') \<longrightarrow>
       (\<not> truthy sgs \<longrightarrow>
          create_vpc_config P vpc_id subnet_ids sgs (w, log) =
            (Inr \<lparr>SubnetIds = subnet_ids, SecurityGroupIds = None\<rparr>,
             (w2, log @ [DescribeVpcs [vpc_id], DescribeSubnets subnet_ids])))
       \<and> (\<forall>ids groups w3.
            sgs = Some ids \<and> ids \<noteq> []
            \<and> ec2_describe_security_groups P ids w2 = (Inr (Some groups), w3) \<longrightarrow>
            ((\<exists>g\<in>set groups. sg_VpcId g \<noteq> Some vpc_id) \<longrightarrow>
               create_vpc_config P vpc_id subnet_ids sgs (w, log) =
                 (Inl (ValueError ''Invalid security groups: {security_group_ids}'' [StrList ids]),
                  (w3, log @ [DescribeVpcs [vpc_id], DescribeSubnets subnet_ids,
                              DescribeSecurityGroups ids])))
            \<and> (length groups = length ids \<and> (\<forall>g\<in>set groups. sg_VpcId g = Some vpc_id) \<longrightarrow>
               create_vpc_config P vpc_id subnet_ids sgs (w, log) =
                 (Inr \<lparr>SubnetIds = subnet_ids, SecurityGroupIds = Some ids\<rparr>,
                  (w3, log @ [DescribeVpcs [vpc_id], DescribeSubnets subnet_ids,
                              DescribeSecurityGroups ids]))))"
  proof (intro impI conjI allI)
    assume ok: "length subnets = length subnet_ids
         \<and> (\<forall>sn\<in>set subnets. subnet_VpcId sn = Some vpc_id \<and> subnet_State sn = Some ''available'')"
    then have sn': "validate_subnets P subnet_ids vpc_id (w1, log @ [DescribeVpcs [vpc_id]]) =
       (Inr True, (w2, log @ [DescribeVpcs [vpc_id], DescribeSubnets subnet_ids]))"
      using sn by (simp add: subnets_loop_iff)
    { assume "\<not> truthy sgs"
      then show "create_vpc_config P vpc_id subnet_ids sgs (w, log) =
            (Inr \<lparr>SubnetIds = subnet_ids, SecurityGroupIds = None\<rparr>,
             (w2, log @ [DescribeVpcs [vpc_id], DescribeSubnets subnet_ids]))"
        by (simp add: create_vpc_config_no_sgs v sn') }
    { fix ids groups w3
      assume h: "sgs = Some ids \<and> ids \<noteq> []
            \<and> ec2_describe_security_groups P ids w2 = (Inr (Some groups), w3)"
      then have sg: "validate_security_groups P ids vpc_id
                  (w2, log @ [DescribeVpcs [vpc_id], DescribeSubnets subnet_ids]) =
            (Inr (length groups = length ids \<and> security_groups_loop groups vpc_id),
             (w3, log @ [DescribeVpcs [vpc_id], DescribeSubnets subnet_ids, DescribeSecurityGroups ids]))"
        by (simp add: validate_security_groups_run)
      { assume "\<exists>g\<in>set groups. sg_VpcId g \<noteq> Some vpc_id"
        then have "\<not> security_groups_loop groups vpc_id" by (auto simp add: security_groups_loop_iff)
        then show "create_vpc_config P vpc_id subnet_ids sgs (w, log) =
                 (Inl (ValueError ''Invalid security groups: {security_group_ids}'' [StrList ids]),
                  (w3, log @ [DescribeVpcs [vpc_id], DescribeSubnets subnet_ids,
                              DescribeSecurityGroups ids]))"
          using h by (simp add: create_vpc_config_sgs v sn' sg) }
      { assume "length groups = length ids \<and> (\<forall>g\<in>set groups. sg_VpcId g = Some vpc_id)"
        then have "length groups = length ids \<and> security_groups_loop groups vpc_id"
          by (simp add: security_groups_loop_iff)
        then show "create_vpc_config P vpc_id subnet_ids sgs (w, log) =
                 (Inr \<lparr>SubnetIds = subnet_ids, SecurityGroupIds = Some ids\<rparr>,
                  (w3, log @ [DescribeVpcs [vpc_id], DescribeSubnets subnet_ids,
                              DescribeSecurityGroups ids]))"
          using h by (simp add: create_vpc_config_sgs v sn' sg) }
    }
  qed
  show ?thesis using p1 p2 by (rule conjI)
qed

theorem create_vpc_config_validates_witness:
  "ec2_describe_vpcs mock_provider [''vpc-2''] () = (Inr (Some [\<lparr>vpc_State = Some ''available''\<rparr>]), ())
   \<and> ec2_describe_subnets mock_provider [''subnet-a''] () =
       (Inr (Some [\<lparr>subnet_VpcId = Some ''vpc-1'', subnet_State = Some ''available''\<rparr>]), ())
   \<and> ec2_describe_security_groups foreign_sg_provider [''sg-1''] () =
       (Inr (Some [\<lparr>sg_VpcId = Some ''vpc-9''\<rparr>]), ())
   \<and> ec2_describe_security_groups mock_provider [''sg-1''] () =
       (Inr (Some [\<lparr>sg_VpcId = Some ''vpc-1''\<rparr>]), ())
   \<and> create_vpc_config mock_provider ''vpc-2'' [''subnet-a''] None ((), []) =
       (Inl (ValueError ''Invalid subnets: {subnet_ids}'' [StrList [''subnet-a'']]),
        ((), [DescribeVpcs [''vpc-2''], DescribeSubnets [''subnet-a'']]))
   \<and> create_vpc_config mock_provider ''vpc-1'' [''subnet-a''] None ((), []) =
       (Inr \<lparr>SubnetIds = [''subnet-a''], SecurityGroupIds = None\<rparr>,
        ((), [DescribeVpcs [''vpc-1''], DescribeSubnets [''subnet-a'']]))
   \<and> create_vpc_config foreign_sg_provider ''vpc-1'' [''subnet-a''] (Some [''sg-1'']) ((), []) =
       (Inl (ValueError ''Invalid security groups: {security_group_ids}'' [StrList [''sg-1'']]),
        ((), [DescribeVpcs [''vpc-1''], DescribeSubnets [''subnet-a''], DescribeSecurityGroups [''sg-1'']]))
   \<and> create_vpc_config mock_provider ''vpc-1'' [''subnet-a''] (Some [''sg-1'']) ((), []) =
       (Inr \<lparr>SubnetIds = [''subnet-a''], SecurityGroupIds = Some [''sg-1'']\<rparr>,
        ((), [DescribeVpcs [''vpc-1''], DescribeSubnets [''subnet-a''], DescribeSecurityGroups [''sg-1'']]))"
proof -
  have v: "ec2_describe_vpcs mock_provider [v] () = (Inr (Some (\<lparr>vpc_State = Some ''available''\<rparr> # [])), ())"
    and st: "vpc_State \<lparr>vpc_State = Some ''available''\<rparr> = Some ''available''"
    and sn: "ec2_describe_subnets mock_provider [''subnet-a''] () =
       (Inr (Some [\<lparr>subnet_VpcId = Some ''vpc-1'', subnet_State = Some ''available''\<rparr>]), ())"
    and g: "ec2_describe_security_groups mock_provider [''sg-1''] () =
       (Inr (Some [\<lparr>sg_VpcId = Some ''vpc-1''\<rparr>]), ())"
    for v
    by (simp_all add: mock_provider_def)
  have v': "ec2_describe_vpcs foreign_sg_provider [''vpc-1''] () =
              (Inr (Some (\<lparr>vpc_State = Some ''available''\<rparr> # [])), ())"
    and sn': "ec2_describe_subnets foreign_sg_provider [''subnet-a''] () =
       (Inr (Some [\<lparr>subnet_VpcId = Some ''vpc-1'', subnet_State = Some ''available''\<rparr>]), ())"
    and g': "ec2_describe_security_groups foreign_sg_provider [''sg-1''] () =
       (Inr (Some [\<lparr>sg_VpcId = Some ''vpc-9''\<rparr>]), ())"
    by (simp_all add: foreign_sg_provider_def mock_provider_def)
  have r1: "create_vpc_config mock_provider ''vpc-2'' [''subnet-a''] None ((), []) =
       (Inl (ValueError ''Invalid subnets: {subnet_ids}'' [StrList [''subnet-a'']]),
        ((), [DescribeVpcs [''vpc-2''], DescribeSubnets [''subnet-a'']]))"
    using create_vpc_config_validates [OF v [of "''vpc-2''"] st sn, where sgs = None and log = "[]"] by simp
  have r2: "create_vpc_config mock_provider ''vpc-1'' [''subnet-a''] None ((), []) =
       (Inr \<lparr>SubnetIds = [''subnet-a''], SecurityGroupIds = None\<rparr>,
        ((), [DescribeVpcs [''vpc-1''], DescribeSubnets [''subnet-a'']]))"
    using create_vpc_config_validates [OF v [of "''vpc-1''"] st sn, where sgs = None and log = "[]"] by (simp add: truthy_def)
  have r3: "create_vpc_config foreign_sg_provider ''vpc-1'' [''subnet-a''] (Some [''sg-1'']) ((), []) =
       (Inl (ValueError ''Invalid security groups: {security_group_ids}'' [StrList [''sg-1'']]),
        ((), [DescribeVpcs [''vpc-1''], DescribeSubnets [''subnet-a''], DescribeSecurityGroups [''sg-1'']]))"
    using create_vpc_config_validates [OF v' st sn', where sgs = "Some [''sg-1'']" and log = "[]"] g' by simp
  have r4: "create_vpc_config mock_provider ''vpc-1'' [''subnet-a''] (Some [''sg-1'']) ((), []) =
       (Inr \<lparr>SubnetIds = [''subnet-a''], SecurityGroupIds = Some [''sg-1'']\<rparr>,
        ((), [DescribeVpcs [''vpc-1''], DescribeSubnets [''subnet-a''], DescribeSecurityGroups [''sg-1'']]))"
    using create_vpc_config_validates [OF v [of "''vpc-1''"] st sn, where sgs = "Some [''sg-1'']" and log = "[]"] g by simp
  show ?thesis using v [of "''vpc-2''"] sn g g' r1 r2 r3 r4 by simp
qed

text \<open>
  Claim C9: an empty list of security groups behaves as an absent one. The two calls have
  the same result, the same provider state and the same log; no
  \<open>DescribeSecurityGroups\<close> request is issued; and a returned descriptor has no
  \<open>SecurityGroupIds\<close> key.
\<close>

theorem create_vpc_config_empty_security_groups:
  "create_vpc_config P vpc_id subnet_ids (Some []) (w, log) =
     create_vpc_config P vpc_id subnet_ids None (w, log)
   \<and> (\<forall>ids. DescribeSecurityGroups ids \<notin>
          set (drop (length log) (snd (snd (create_vpc_config P vpc_id subnet_ids (Some []) (w, log))))))
   \<and> (\<forall>cfg s'. create_vpc_config P vpc_id subnet_ids (Some []) (w, log) = (Inr cfg, s')
          \<longrightarrow> SecurityGroupIds cfg = None)"
proof (intro conjI)
  have nt: "\<not> truthy (Some ([] :: string list))" "\<not> truthy (None :: string list option)"
    by (simp_all add: truthy_def)
  show "create_vpc_config P vpc_id subnet_ids (Some []) (w, log) =
     create_vpc_config P vpc_id subnet_ids None (w, log)"
    by (simp add: create_vpc_config_no_sgs nt)
  show "\<forall>ids. DescribeSecurityGroups ids \<notin>
          set (drop (length log) (snd (snd (create_vpc_config P vpc_id subnet_ids (Some []) (w, log)))))"
    using create_vpc_config_no_sgs_log [OF nt(1), of P vpc_id subnet_ids w log] by auto
  show "\<forall>cfg s'. create_vpc_config P vpc_id subnet_ids (Some []) (w, log) = (Inr cfg, s')
          \<longrightarrow> SecurityGroupIds cfg = None"
    by (auto simp add: create_vpc_config_no_sgs nt split: prod.splits sum.splits bool.splits)
qed

theorem create_vpc_config_empty_security_groups_witness:
  "create_vpc_config mock_provider ''vpc-1'' [''subnet-a''] (Some []) ((), []) =
     (Inr \<lparr>SubnetIds = [''subnet-a''], SecurityGroupIds = None\<rparr>,
      ((), [DescribeVpcs [''vpc-1''], DescribeSubnets [''subnet-a'']]))
   \<and> SecurityGroupIds \<lparr>SubnetIds = [''subnet-a''], SecurityGroupIds = None\<rparr> = None"
proof -
  have "create_vpc_config mock_provider ''vpc-1'' [''subnet-a''] None ((), []) =
     (Inr \<lparr>SubnetIds = [''subnet-a''], SecurityGroupIds = None\<rparr>,
      ((), [DescribeVpcs [''vpc-1''], DescribeSubnets [''subnet-a'']]))"
    by (simp add: create_vpc_config_no_sgs truthy_def validate_vpc_run validate_subnets_run mock_provider_def)
  with create_vpc_config_empty_security_groups [of mock_provider "''vpc-1''" "[''subnet-a'']" "()" "[]"]
  show ?thesis by simp
qed

section \<open>Logs of composed programs\<close>

lemma emitsD: "emits Q m \<Longrightarrow> m (w, log) = (r, (w', log')) \<Longrightarrow> \<exists>new. log' = log @ new \<and> list_all Q new"
  unfolding emits_def by (metis snd_conv)

lemma emits_ret: "emits Q (ret x)"
  by (simp add: emits_def ret_def)

lemma emits_raise: "emits Q (raise e)"
  by (simp add: emits_def raise_def)

lemma emits_call: "Q rq \<Longrightarrow> emits Q (call rq h)"
  by (auto simp add: emits_def call_def split: prod.split)

lemma emits_seq:
  assumes "emits Q m" and "\<And>x. emits Q (k x)"
  shows "emits Q (seq m k)"
  unfolding emits_def
proof (intro allI)
  fix w log
  obtain r w1 log1 where m: "m (w, log) = (r, (w1, log1))" by (metis prod.exhaust)
  from emitsD [OF assms(1) m] obtain n1 where n1: "log1 = log @ n1" "list_all Q n1" by blast
  show "\<exists>new. snd (snd (seq m k (w, log))) = log @ new \<and> list_all Q new"
  proof (cases r)
    case (Inl e)
    with m n1 show ?thesis by (simp add: seq_def)
  next
    case (Inr x)
    obtain r2 w2 log2 where k: "k x (w1, log1) = (r2, (w2, log2))" by (metis prod.exhaust)
    from emitsD [OF assms(2) k] obtain n2 where "log2 = log1 @ n2" "list_all Q n2" by blast
    with Inr m n1 k show ?thesis by (simp add: seq_def)
  qed
qed

lemma emits_except:
  assumes "emits Q m" and "\<And>c. emits Q (h c)"
  shows "emits Q (except_ClientError m h)"
  unfolding emits_def
proof (intro allI)
  fix w log
  obtain r w1 log1 where m: "m (w, log) = (r, (w1, log1))" by (metis prod.exhaust)
  from emitsD [OF assms(1) m] obtain n1 where n1: "log1 = log @ n1" "list_all Q n1" by blast
  show "\<exists>new. snd (snd (except_ClientError m h (w, log))) = log @ new \<and> list_all Q new"
  proof (cases "\<exists>c. r = Inl (ClientError c)")
    case True
    then obtain c where c: "r = Inl (ClientError c)" by blast
    obtain r2 w2 log2 where k: "h c (w1, log1) = (r2, (w2, log2))" by (metis prod.exhaust)
    from emitsD [OF assms(2) k] obtain n2 where "log2 = log1 @ n2" "list_all Q n2" by blast
    with c m n1 k show ?thesis by (simp add: except_ClientError_def)
  next
    case False
    then have "except_ClientError m h (w, log) = (r, (w1, log1))"
      using m by (simp add: except_ClientError_def split: sum.split exn.split)
    with n1 show ?thesis by simp
  qed
qed

lemma emits_for_each: "(\<And>x. emits Q (body x)) \<Longrightarrow> emits Q (for_each body xs)"
  by (induction xs) (simp_all add: emits_ret emits_seq)

lemma pemits_lift: "emits Q m \<Longrightarrow> pemits Q (lift m)"
  unfolding pemits_def lift_def by (auto dest: emitsD)

lemma pemitsD:
  "pemits Q m \<Longrightarrow> m (w, log) = Some (r, (w', log')) \<Longrightarrow> \<exists>new. log' = log @ new \<and> list_all Q new"
  unfolding pemits_def by blast

lemma pemits_pseq:
  assumes "pemits Q m" and "\<And>x. pemits Q (k x)"
  shows "pemits Q (pseq m k)"
  unfolding pemits_def
proof (intro allI impI)
  fix w log r w' log'
  assume run: "pseq m k (w, log) = Some (r, (w', log'))"
  then obtain r1 w1 log1 where m: "m (w, log) = Some (r1, (w1, log1))"
    by (cases "m (w, log)") (auto simp add: pseq_def)
  from pemitsD [OF assms(1) m] obtain n1 where n1: "log1 = log @ n1" "list_all Q n1" by blast
  show "\<exists>new. log' = log @ new \<and> list_all Q new"
  proof (cases r1)
    case (Inl e)
    with m n1 run show ?thesis by (auto simp add: pseq_def)
  next
    case (Inr x)
    with m run have k: "k x (w1, log1) = Some (r, (w', log'))" by (simp add: pseq_def)
    from pemitsD [OF assms(2) k] obtain n2 where "log' = log1 @ n2" "list_all Q n2" by blast
    with n1 show ?thesis by simp
  qed
qed

lemma pemits_pexcept:
  assumes "pemits Q m" and "\<And>c. pemits Q (h c)"
  shows "pemits Q (pexcept_ClientError m h)"
  unfolding pemits_def
proof (intro allI impI)
  fix w log r w' log'
  assume run: "pexcept_ClientError m h (w, log) = Some (r, (w', log'))"
  then obtain r1 w1 log1 where m: "m (w, log) = Some (r1, (w1, log1))"
    by (cases "m (w, log)") (auto simp add: pexcept_ClientError_def)
  from pemitsD [OF assms(1) m] obtain n1 where n1: "log1 = log @ n1" "list_all Q n1" by blast
  show "\<exists>new. log' = log @ new \<and> list_all Q new"
  proof (cases "\<exists>c. r1 = Inl (ClientError c)")
    case True
    then obtain c where c: "r1 = Inl (ClientError c)" by blast
    with m run have k: "h c (w1, log1) = Some (r, (w', log'))" by (simp add: pexcept_ClientError_def)
    from pemitsD [OF assms(2) k] obtain n2 where "log' = log1 @ n2" "list_all Q n2" by blast
    with n1 show ?thesis by simp
  next
    case False
    then have "pexcept_ClientError m h (w, log) = Some (r1, (w1, log1))"
      using m by (simp add: pexcept_ClientError_def split: sum.split exn.split)
    with run n1 show ?thesis by auto
  qed
qed

lemma while_truncated_emits:
  "while_truncated list_page body response s = Some y \<Longrightarrow>
     (\<forall>marker. emits Q (list_page marker)) \<longrightarrow> (\<forall>x. emits Q (body x)) \<longrightarrow>
     (\<exists>new. snd (snd y) = snd s @ new \<and> list_all Q new)"
proof (induction list_page body response s y rule: while_truncated.raw_induct [rotated 1, consumes 1])
  case (1 wt list_page body response s y)
  show ?case
  proof (intro impI)
    assume l: "\<forall>marker. emits Q (list_page marker)" and b: "\<forall>x. emits Q (body x)"
    obtain w log where s: "s = (w, log)" by (cases s)
    show "\<exists>new. snd (snd y) = snd s @ new \<and> list_all Q new"
    proof (cases "IsTruncated response")
      case False
      with 1(2) show ?thesis by auto
    next
      case True
      show ?thesis
      proof (cases "Marker response")
        case None
        with True 1(2) show ?thesis by auto
      next
        case (Some marker)
        obtain r1 w1 log1 where lp: "list_page (Some marker) (w, log) = (r1, (w1, log1))"
          by (metis prod.exhaust)
        from l have "emits Q (list_page (Some marker))" by blast
        from emitsD [OF this lp] obtain n1 where n1: "log1 = log @ n1" "list_all Q n1" by blast
        show ?thesis
        proof (cases r1)
          case (Inl e)
          with True Some lp s 1(2) have "y = (Inl e, (w1, log1))" by simp
          with n1 s show ?thesis by (intro exI [of _ n1]) simp
        next
          case (Inr response')
          obtain r2 w2 log2 where fe: "for_each body (items response') (w1, log1) = (r2, (w2, log2))"
            by (metis prod.exhaust)
          from b have "emits Q (for_each body (items response'))" by (simp add: emits_for_each)
          from emitsD [OF this fe] obtain n2 where n2: "log2 = log1 @ n2" "list_all Q n2" by blast
          show ?thesis
          proof (cases r2)
            case (Inl e)
            with True Some lp s fe Inr 1(2) have "y = (Inl e, (w2, log2))" by simp
            with n1 n2 s show ?thesis by (intro exI [of _ "n1 @ n2"]) simp
          next
            case r2: (Inr u)
            with True Some lp s fe Inr 1(2) have "wt list_page body response' (w2, log2) = Some y"
              by simp
            from 1(1) [OF this] l b obtain n3 where "snd (snd y) = log2 @ n3" "list_all Q n3"
              by auto
            with n1 n2 s show ?thesis by (intro exI [of _ "n1 @ n2 @ n3"]) simp
          qed
        qed
      qed
    qed
  qed
qed

lemma pemits_while_truncated:
  assumes "\<And>marker. emits Q (list_page marker)" and "\<And>x. emits Q (body x)"
  shows "pemits Q (while_truncated list_page body response)"
  unfolding pemits_def using while_truncated_emits [of list_page body response _ _ Q] assms
  by fastforce

lemma pemits_paginate:
  assumes "\<And>marker. emits Q (list_page marker)" and "\<And>x. emits Q (body x)"
  shows "pemits Q (paginate list_page body)"
  unfolding paginate_def
  by (intro pemits_pseq pemits_lift pemits_while_truncated emits_for_each assms)

lemmas emits_intros =
  emits_ret emits_raise emits_call emits_seq emits_except emits_for_each
  pemits_lift pemits_pseq pemits_pexcept pemits_paginate

lemma emits_if: "emits Q a \<Longrightarrow> emits Q b \<Longrightarrow> emits Q (if c then a else b)"
  by simp

lemma pemits_if: "pemits Q a \<Longrightarrow> pemits Q b \<Longrightarrow> pemits Q (if c then a else b)"
  by simp

lemma emits_role_exists: "emits identity_request (role_exists P r)"
  unfolding role_exists_def by (intro emits_intros emits_if) simp_all

lemma emits_create_role: "emits identity_request (create_role P r)"
  unfolding create_role_def get_account_id_def Let_def by (intro emits_intros emits_if) simp_all

lemma pemits_delete_policy: "pemits identity_request (delete_policy P arn)"
  unfolding delete_policy_def detach_policy_from_all_entities_def
  by (intro emits_intros) simp_all

lemma pemits_create_s3_access_policy: "pemits identity_request (create_s3_access_policy P r b)"
  unfolding create_s3_access_policy_def get_account_id_def Let_def
  by (intro emits_intros pemits_if pemits_delete_policy) simp_all

lemma pemits_delete_role: "pemits identity_request (delete_role P r)"
  unfolding delete_role_def detach_all_policies_from_role_def
  by (intro emits_intros) simp_all

lemma pemits_create_or_update_role:
  "pemits identity_request (create_or_update_role P r b force)"
  unfolding create_or_update_role_def
  by (intro emits_intros pemits_if pemits_delete_role pemits_create_s3_access_policy
        emits_role_exists emits_create_role) simp_all

lemma emits_validate_vpc: "emits network_request (validate_vpc P v)"
  unfolding validate_vpc_def
  by (intro emits_intros emits_if) (auto intro!: emits_intros split: option.split list.split)

lemma pseq_Inr:
  "pseq m k s = Some (Inr y, s'') \<longleftrightarrow> (\<exists>x s'. m s = Some (Inr x, s') \<and> k x s' = Some (Inr y, s''))"
  by (auto simp add: pseq_def split: option.splits prod.splits sum.splits)

lemma lift_Some [simp]: "lift m s = Some z \<longleftrightarrow> m s = z"
  by (auto simp add: lift_def)

lemma seq_Inr_iff:
  "seq m k s = (Inr y, s'') \<longleftrightarrow> (\<exists>x s'. m s = (Inr x, s') \<and> k x s' = (Inr y, s''))"
  by (auto simp add: seq_def split: prod.splits sum.splits)

lemma ret_eq [simp]: "ret x s = (r, s') \<longleftrightarrow> r = Inr x \<and> s' = s"
  by (auto simp add: ret_def)

lemma raise_eq [simp]: "raise e s = (r, s') \<longleftrightarrow> r = Inl e \<and> s' = s"
  by (auto simp add: raise_def)

lemma call_Inr:
  "call rq h (w, log) = (Inr x, (w', log')) \<longleftrightarrow> h w = (Inr x, w') \<and> log' = log @ [rq]"
  by (auto simp add: call_def split: prod.splits)

lemma emits_validate_subnets: "emits network_request (validate_subnets P ids v)"
  unfolding validate_subnets_def
  by (intro emits_intros emits_if) (auto intro!: emits_intros split: option.split)

lemma emits_validate_security_groups: "emits network_request (validate_security_groups P ids v)"
  unfolding validate_security_groups_def
  by (intro emits_intros emits_if) (auto intro!: emits_intros split: option.split)

lemma emits_create_vpc_config: "emits network_request (create_vpc_config P v ids sgs)"
  unfolding create_vpc_config_def
  by (intro emits_intros emits_if emits_validate_vpc emits_validate_subnets
        emits_validate_security_groups)

lemma deploy_function_existing:
  assumes ex: "fst (lambda_get_function P fn w) = Inr ()"
    and run: "deploy_function P fn ecr role mem tmo vc (w, log) = (Inr farn, (w', log'))"
  shows "log' = log @ [GetFunction fn, UpdateFunctionCode fn ecr,
                       WaiterWait ''function_updated'' fn,
                       UpdateFunctionConfiguration fn
                         \<lparr>up_Role = Some role, up_MemorySize = Some mem, up_Timeout = Some tmo,
                          up_VpcConfig = vc, up_Environment = None\<rparr>,
                       WaiterWait ''function_updated'' fn]"
proof -
  obtain w1 where g: "lambda_get_function P fn w = (Inr (), w1)"
    using ex by (cases "lambda_get_function P fn w") auto
  have fe: "function_exists P fn (w, log) = (Inr True, (w1, log @ [GetFunction fn]))"
    using g by (simp add: function_exists_probe probe_run)
  from run fe obtain x s1 where
    c: "update_function_code P fn ecr (w1, log @ [GetFunction fn]) = (Inr x, s1)"
    and u: "update_function_configuration P fn role mem tmo vc s1 = (Inr farn, (w', log'))"
    by (auto simp add: deploy_function_def seq_Inr_iff)
  from c have s1: "snd s1 = log @ [GetFunction fn, UpdateFunctionCode fn ecr,
                       WaiterWait ''function_updated'' fn]"
    by (cases s1) (auto simp add: update_function_code_def seq_Inr_iff call_Inr)
  from u s1 show ?thesis
    by (cases s1) (auto simp add: update_function_configuration_def Let_def seq_Inr_iff call_Inr)
qed

lemma configure_s3_access_success:
  assumes "configure_s3_access P fn b (w, log) = (Inr x, (w', log'))"
  shows "\<exists>vars. log' = log @ [HeadBucket b, GetFunctionConfiguration fn,
                       UpdateFunctionConfiguration fn
                         \<lparr>up_Role = None, up_MemorySize = None, up_Timeout = None,
                          up_VpcConfig = None, up_Environment = Some vars\<rparr>,
                       WaiterWait ''function_updated'' fn]"
proof -
  from assms obtain s1 where
    be: "bucket_exists P b (w, log) = (Inr True, s1)"
    and up: "update_lambda_environment P fn b s1 = (Inr (), (w', log'))"
    by (auto simp add: configure_s3_access_def seq_Inr_iff split: if_splits)
  from be have s1: "snd s1 = log @ [HeadBucket b]"
    by (cases s1) (auto simp add: bucket_exists_probe probe_run split: prod.splits sum.splits exn.splits if_splits)
  from up s1 show ?thesis
    by (cases s1) (auto simp add: update_lambda_environment_def Let_def seq_Inr_iff call_Inr)
qed

lemma filter_none: "list_all Q xs \<Longrightarrow> (\<And>c. Q c \<Longrightarrow> \<not> R c) \<Longrightarrow> filter R xs = []"
  by (induction xs) auto

lemma pemits_vpc_step:
  "pemits network_request
     (if truthy vpc_id then
        (if \<not> truthy subnet_ids
         then lift (raise (ValueError ''Subnet IDs must be provided when using VPC configuration'' []))
         else pseq (lift (create_vpc_config P (the vpc_id) (the subnet_ids) sgs))
                (\<lambda>cfg. lift (ret (Some cfg))))
      else lift (ret None))"
  by (intro emits_intros pemits_if emits_create_vpc_config)

lemma network_not_lambda:
  "network_request c \<Longrightarrow> \<not> is_update_function_code c"
  "network_request c \<Longrightarrow> \<not> is_update_function_configuration c"
  "network_request c \<Longrightarrow> \<not> is_create_function c"
  by (cases c; simp)+

lemma identity_not_lambda:
  "identity_request c \<Longrightarrow> \<not> is_update_function_code c"
  "identity_request c \<Longrightarrow> \<not> is_update_function_configuration c"
  "identity_request c \<Longrightarrow> \<not> is_create_function c"
  by (cases c; simp)+

lemma deploy_existing_log:
  assumes ex: "\<And>w. fst (lambda_get_function P fn w) = Inr ()"
    and run: "deploy P ecr fn b role mem tmo vpc_id subnet_ids sgs force (w, []) =
                Some (Inr res, (w', log))"
  shows "\<exists>net idn vc vars.
           list_all network_request net \<and> list_all identity_request idn \<and>
           log = net @ idn @
                 [GetFunction fn, UpdateFunctionCode fn ecr, WaiterWait ''function_updated'' fn,
                  UpdateFunctionConfiguration fn
                    \<lparr>up_Role = Some (role_arn res), up_MemorySize = Some mem, up_Timeout = Some tmo,
                     up_VpcConfig = vc, up_Environment = None\<rparr>,
                  WaiterWait ''function_updated'' fn,
                  HeadBucket b, GetFunctionConfiguration fn,
                  UpdateFunctionConfiguration fn
                    \<lparr>up_Role = None, up_MemorySize = None, up_Timeout = None,
                     up_VpcConfig = None, up_Environment = Some vars\<rparr>,
                  WaiterWait ''function_updated'' fn]"
proof -
  define rn where "rn = (if truthy role then the role else ''lambda-'' @ fn @ ''-role'')"
  define vstep where "vstep =
     (if truthy vpc_id then
        (if \<not> truthy subnet_ids
         then lift (raise (ValueError ''Subnet IDs must be provided when using VPC configuration'' []))
         else pseq (lift (create_vpc_config P (the vpc_id) (the subnet_ids) sgs))
                (\<lambda>cfg. lift (ret (Some cfg))))
      else lift (ret None))"
  have ne: "ecr \<noteq> []" "fn \<noteq> []" "b \<noteq> []"
    using run by (auto simp add: deploy_def lift_def raise_def split: if_splits)
  from run ne obtain vc wa la rarn wb lb farn wc lc x where
    v: "vstep (w, []) = Some (Inr vc, (wa, la))"
    and r: "create_or_update_role P rn b force (wa, la) = Some (Inr rarn, (wb, lb))"
    and d: "deploy_function P fn ecr rarn mem tmo vc (wb, lb) = (Inr farn, (wc, lc))"
    and c: "configure_s3_access P fn b (wc, lc) = (Inr x, (w', log))"
    and res: "res = \<lparr>function_arn = farn, role_arn = rarn\<rparr>"
    unfolding deploy_def Let_def rn_def [symmetric] vstep_def [symmetric]
    by (auto simp add: pseq_Inr)
  from pemitsD [OF pemits_vpc_step v [unfolded vstep_def]]
  obtain net where net: "la = net" "list_all network_request net" by auto
  from pemitsD [OF pemits_create_or_update_role r]
  obtain idn where idn: "lb = la @ idn" "list_all identity_request idn" by auto
  note dl = deploy_function_existing [OF ex d]
  from configure_s3_access_success [OF c] obtain vars where
    cl: "log = lc @ [HeadBucket b, GetFunctionConfiguration fn,
                       UpdateFunctionConfiguration fn
                         \<lparr>up_Role = None, up_MemorySize = None, up_Timeout = None,
                          up_VpcConfig = None, up_Environment = Some vars\<rparr>,
                       WaiterWait ''function_updated'' fn]" by blast
  show ?thesis
    using net idn dl cl res
    by (intro exI [of _ net] exI [of _ idn] exI [of _ vc] exI [of _ vars]) simp
qed

section \<open>Orchestration\<close>

text \<open>
  Claim C2: when \<open>ecr_image_uri\<close>, \<open>function_name\<close> or \<open>s3_bucket\<close> is empty, or when
  \<open>vpc_id\<close> is set and \<open>subnet_ids\<close> is empty, \<open>deploy\<close> raises the \<open>ValueError\<close> of the
  first missing parameter; the provider's state and the request log are those of the start,
  so that no collaborator has been called. When only the subnet IDs are missing, the
  message is the one about subnet IDs.
\<close>

theorem deploy_missing_parameter:
  assumes "ecr_image_uri = [] \<or> function_name = [] \<or> s3_bucket = []
           \<or> (truthy vpc_id \<and> \<not> truthy subnet_ids)"
  shows "deploy P ecr_image_uri function_name s3_bucket role_name memory_size timeout vpc_id
           subnet_ids security_group_ids force_recreate_role s =
         Some (Inl (ValueError
                 (if ecr_image_uri = [] then ''ECR image URI is required''
                  else if function_name = [] then ''Function name is required''
                  else if s3_bucket = [] then ''S3 bucket name is required''
                  else ''Subnet IDs must be provided when using VPC configuration'') []), s)"
  using assms by (auto simp add: deploy_def lift_def raise_def pseq_def Let_def)

theorem deploy_missing_parameter_witness:
  "deploy mock_provider [] ''f'' ''b'' None 128 30 None None None False ((), []) =
     Some (Inl (ValueError ''ECR image URI is required'' []), ((), []))
   \<and> deploy mock_provider ''img'' [] ''b'' None 128 30 None None None False ((), []) =
     Some (Inl (ValueError ''Function name is required'' []), ((), []))
   \<and> deploy mock_provider ''img'' ''f'' [] None 128 30 None None None False ((), []) =
     Some (Inl (ValueError ''S3 bucket name is required'' []), ((), []))
   \<and> truthy (Some ''vpc-1'') \<and> \<not> truthy (Some ([] :: string list))
   \<and> deploy mock_provider ''img'' ''f'' ''b'' None 128 30 (Some ''vpc-1'') (Some []) None False ((), []) =
     Some (Inl (ValueError ''Subnet IDs must be provided when using VPC configuration'' []), ((), []))"
  using deploy_missing_parameter
          [where ecr_image_uri = "[]" and function_name = "''f''" and s3_bucket = "''b''"
             and vpc_id = None and subnet_ids = None and P = mock_provider and role_name = None
             and memory_size = 128 and timeout = 30 and security_group_ids = None
             and force_recreate_role = False and s = "((), [])"]
        deploy_missing_parameter
          [where ecr_image_uri = "''img''" and function_name = "[]" and s3_bucket = "''b''"
             and vpc_id = None and subnet_ids = None and P = mock_provider and role_name = None
             and memory_size = 128 and timeout = 30 and security_group_ids = None
             and force_recreate_role = False and s = "((), [])"]
        deploy_missing_parameter
          [where ecr_image_uri = "''img''" and function_name = "''f''" and s3_bucket = "[]"
             and vpc_id = None and subnet_ids = None and P = mock_provider and role_name = None
             and memory_size = 128 and timeout = 30 and security_group_ids = None
             and force_recreate_role = False and s = "((), [])"]
        deploy_missing_parameter
          [where ecr_image_uri = "''img''" and function_name = "''f''" and s3_bucket = "''b''"
             and vpc_id = "Some ''vpc-1''" and subnet_ids = "Some []" and P = mock_provider
             and role_name = None and memory_size = 128 and timeout = 30
             and security_group_ids = None and force_recreate_role = False and s = "((), [])"]
  by (simp add: truthy_def)

lemmas run_defs =
  deploy_def create_or_update_role_def create_s3_access_policy_def get_account_id_def
  deploy_function_def update_function_code_def update_function_configuration_def
  configure_s3_access_def update_lambda_environment_def
  function_exists_probe role_exists_probe bucket_exists_probe probe_run
  pseq_def lift_def pexcept_ClientError_def seq_def call_def ret_def raise_def
  except_ClientError_def truthy_def Let_def

lemma mock_deploy_run:
  "deploy mock_provider ''img:v2'' ''f'' ''b'' None 128 30 None None None False ((), []) =
     Some (Inr \<lparr>function_arn = ''arn:aws:lambda:us-east-1:123456789012:function:f'',
                role_arn = ''arn:aws:iam::123456789012:role/lambda-f-role''\<rparr>,
           ((), [GetRole ''lambda-f-role'', GetRole ''lambda-f-role'', GetCallerIdentity,
                 GetPolicy ''arn:aws:iam::123456789012:policy/lambda-f-role-s3-access'',
                 CreatePolicy ''lambda-f-role-s3-access'' (s3_policy_document ''b'')
                   ''S3 access policy for Lambda function role lambda-f-role'',
                 AttachRolePolicy ''lambda-f-role''
                   ''arn:aws:iam::123456789012:policy/lambda-f-role-s3-access'',
                 GetFunction ''f'', UpdateFunctionCode ''f'' ''img:v2'',
                 WaiterWait ''function_updated'' ''f'',
                 UpdateFunctionConfiguration ''f''
                   \<lparr>up_Role = Some ''arn:aws:iam::123456789012:role/lambda-f-role'',
                    up_MemorySize = Some 128, up_Timeout = Some 30, up_VpcConfig = None,
                    up_Environment = None\<rparr>,
                 WaiterWait ''function_updated'' ''f'',
                 HeadBucket ''b'', GetFunctionConfiguration ''f'',
                 UpdateFunctionConfiguration ''f''
                   \<lparr>up_Role = None, up_MemorySize = None, up_Timeout = None, up_VpcConfig = None,
                    up_Environment = Some [(''EXISTING_VAR'', ''existing_value''), (''S3_BUCKET'', ''b'')]\<rparr>,
                 WaiterWait ''function_updated'' ''f'']))"
  by (simp add: run_defs mock_provider_def)

text \<open>
  Claim C1, as the spec states it, counts exactly one \<open>updateFunctionConfiguration\<close> call
  in a second deploy. The deploy of an existing function makes two: \<open>deploy_function\<close>
  updates the role, the memory size and the timeout, and \<open>configure_s3_access\<close> then
  updates the environment.
\<close>

theorem redeploy_two_configuration_updates_counterexample:
  "fst (the (deploy mock_provider ''img:v2'' ''f'' ''b'' None 128 30 None None None False ((), []))) =
     Inr \<lparr>function_arn = ''arn:aws:lambda:us-east-1:123456789012:function:f'',
          role_arn = ''arn:aws:iam::123456789012:role/lambda-f-role''\<rparr>
   \<and> length (filter is_update_function_configuration
        (snd (snd (the (deploy mock_provider ''img:v2'' ''f'' ''b'' None 128 30 None None None False
                          ((), [])))))) = 2"
  by (simp add: mock_deploy_run)

text \<open>
  Claim C1, amended: when the function exists (the provider answers \<open>get_function\<close>
  positively), a deploy that succeeds issues exactly one \<open>UpdateFunctionCode\<close> request, no
  \<open>CreateFunction\<close> request, and exactly two \<open>UpdateFunctionConfiguration\<close> requests: the
  one of \<open>deploy_function\<close> and the environment update of \<open>configure_s3_access\<close>.
\<close>

theorem redeploy_calls:
  assumes ex: "\<And>w. fst (lambda_get_function P fn w) = Inr ()"
    and run: "deploy P ecr fn b role mem tmo vpc_id subnet_ids sgs force (w, []) =
                Some (Inr res, (w', log))"
  shows "length (filter is_update_function_code log) = 1
         \<and> length (filter is_update_function_configuration log) = 2
         \<and> length (filter is_create_function log) = 0"
proof -
  from deploy_existing_log [OF ex run] obtain net idn vc vars where
    n: "list_all network_request net" and i: "list_all identity_request idn"
    and log: "log = net @ idn @
                 [GetFunction fn, UpdateFunctionCode fn ecr, WaiterWait ''function_updated'' fn,
                  UpdateFunctionConfiguration fn
                    \<lparr>up_Role = Some (role_arn res), up_MemorySize = Some mem, up_Timeout = Some tmo,
                     up_VpcConfig = vc, up_Environment = None\<rparr>,
                  WaiterWait ''function_updated'' fn,
                  HeadBucket b, GetFunctionConfiguration fn,
                  UpdateFunctionConfiguration fn
                    \<lparr>up_Role = None, up_MemorySize = None, up_Timeout = None,
                     up_VpcConfig = None, up_Environment = Some vars\<rparr>,
                  WaiterWait ''function_updated'' fn]" by blast
  have "filter is_update_function_code net = []" "filter is_update_function_configuration net = []"
    "filter is_create_function net = []"
    by (rule filter_none [OF n], simp add: network_not_lambda)+
  moreover have "filter is_update_function_code idn = []"
    "filter is_update_function_configuration idn = []" "filter is_create_function idn = []"
    by (rule filter_none [OF i], simp add: identity_not_lambda)+
  ultimately show ?thesis by (simp add: log)
qed

theorem redeploy_calls_witness:
  "(\<forall>w :: unit. fst (lambda_get_function mock_provider ''f'' w) = Inr ())
   \<and> fst (the (deploy mock_provider ''img:v2'' ''f'' ''b'' None 128 30 None None None False ((), []))) =
       Inr \<lparr>function_arn = ''arn:aws:lambda:us-east-1:123456789012:function:f'',
            role_arn = ''arn:aws:iam::123456789012:role/lambda-f-role''\<rparr>
   \<and> length (filter is_update_function_code
        (snd (snd (the (deploy mock_provider ''img:v2'' ''f'' ''b'' None 128 30 None None None False
                          ((), [])))))) = 1
   \<and> length (filter is_update_function_configuration
        (snd (snd (the (deploy mock_provider ''img:v2'' ''f'' ''b'' None 128 30 None None None False
                          ((), [])))))) = 2
   \<and> length (filter is_create_function
        (snd (snd (the (deploy mock_provider ''img:v2'' ''f'' ''b'' None 128 30 None None None False
                          ((), [])))))) = 0"
proof -
  have ex: "fst (lambda_get_function mock_provider ''f'' w) = Inr ()" for w :: unit
    by (simp add: mock_provider_def)
  note counts = redeploy_calls [OF ex mock_deploy_run]
  show ?thesis
    using ex counts by (simp only: mock_deploy_run option.sel fst_conv snd_conv) simp
qed

section \<open>Execution role\<close>






section \<open>The bucket-scoped access policy\<close>
















































section \<open>Reuse of an existing role\<close>










end
